theory Spec2Isabelle
  imports Complex_Main
begin

section \<open>Python values used by the upload pipeline\<close>

text \<open>
  A Python \<^verbatim>\<open>str\<close> is a sequence of Unicode code points; a code point is a
  natural number. Literals of the source are written as HOL strings and converted
  with \<open>str\<close>.
\<close>

type_synonym py_str = "nat list"

definition str :: "string \<Rightarrow> py_str" where
  "str s = map of_char s"

text \<open>
  The code points for which \<^verbatim>\<open>str.isspace\<close> holds; \<^verbatim>\<open>str.split()\<close> and
  \<^verbatim>\<open>str.strip()\<close> use the same test.
\<close>

definition isspace :: "nat \<Rightarrow> bool" where
  "isspace c \<longleftrightarrow>
     (9 \<le> c \<and> c \<le> 13) \<or> (28 \<le> c \<and> c \<le> 32) \<or> c = 133 \<or> c = 160 \<or> c = 5760 \<or>
     (8192 \<le> c \<and> c \<le> 8202) \<or> c = 8232 \<or> c = 8233 \<or> c = 8239 \<or> c = 8287 \<or>
     c = 12288"

text \<open>
  \<^verbatim>\<open>s.split()\<close>: the maximal runs of non-whitespace code points, in order. The first
  argument is the run being collected.
\<close>

fun split_from :: "py_str \<Rightarrow> py_str \<Rightarrow> py_str list" where
  "split_from w [] = (if w = [] then [] else [w])"
| "split_from w (c # cs) =
     (if isspace c then (if w = [] then split_from [] cs else w # split_from [] cs)
      else split_from (w @ [c]) cs)"

definition py_split :: "py_str \<Rightarrow> py_str list" where
  "py_split s = split_from [] s"

text \<open>\<^verbatim>\<open>s.strip()\<close>: whitespace removed at both ends.\<close>

definition py_strip :: "py_str \<Rightarrow> py_str" where
  "py_strip s = rev (dropWhile isspace (rev (dropWhile isspace s)))"

text \<open>
  A Python \<^verbatim>\<open>float\<close> is not-a-number, an infinity (\<open>True\<close> for the positive
  one) or a finite binary64 value, which is a rational number. \<^verbatim>\<open>int(f)\<close> truncates
  towards zero, raises \<^verbatim>\<open>ValueError\<close> on not-a-number and \<^verbatim>\<open>OverflowError\<close> on
  an infinity.
\<close>

datatype py_float = FNan | FInf bool | Finite rat

datatype exn =
  ValueError | OverflowError | KeyError | TypeError | ParserError | DatabaseError

definition int_of_float :: "py_float \<Rightarrow> exn + int" where
  "int_of_float f =
     (case f of
        FNan \<Rightarrow> Inl ValueError
      | FInf _ \<Rightarrow> Inl OverflowError
      | Finite r \<Rightarrow> Inr (if 0 \<le> r then \<lfloor>r\<rfloor> else \<lceil>r\<rceil>))"

text \<open>
  The files are read with \<^verbatim>\<open>dtype=str\<close>: a cell of a frame is a string, or the
  missing-value marker \<^verbatim>\<open>NaN\<close>. A value of type \<open>cell option\<close> is what
  \<^verbatim>\<open>row.get(label)\<close> returns: \<open>None\<close> is Python's \<^verbatim>\<open>None\<close>, for an absent label.
\<close>

datatype cell = NaN | Str py_str

text \<open>
  A pandas \<^verbatim>\<open>Timestamp\<close> is a number of nanoseconds since the epoch. The values a
  record (a Python dict) holds: \<^verbatim>\<open>None\<close>, an \<^verbatim>\<open>int\<close>, a \<^verbatim>\<open>float\<close>, a
  \<^verbatim>\<open>Timestamp\<close> or the missing timestamp \<^verbatim>\<open>NaT\<close>.
\<close>

datatype timestamp = Timestamp int

datatype pyval = PyNone | PyInt int | PyFloat py_float | PyTimestamp timestamp | NaT

text \<open>
  A transaction is a dict from field names to values, kept in insertion order. A table
  of the store is the list of its rows, each a dict from column names to values.
\<close>

type_synonym tx = "(string \<times> pyval) list"

record dataframe =
  columns :: "py_str list"
  rows :: "cell list list"

subsection \<open>Log records\<close>

text \<open>
  The records the code logs at level WARNING or ERROR, one constructor for each
  logging call (DEBUG and INFO records are left out):
  \<^item> \<open>Error_converting\<close>: tasks.py line 64,
  \<^item> \<open>No_data_found\<close>: line 81, with \<^verbatim>\<open>file_index\<close>,
  \<^item> \<open>Empty_chunk\<close>: line 97, with \<^verbatim>\<open>file_index\<close>,
  \<^item> \<open>Unsupported_format\<close>: line 102, with \<^verbatim>\<open>file_index\<close>,
  \<^item> \<open>Error_processing_file\<close>: line 108, with the exception,
  \<^item> \<open>No_valid_rows\<close>: line 151 (a warning),
  \<^item> \<open>Duplicate_booking\<close>, \<open>Duplicate_refund\<close>: lines 175 and 203 (warnings),
  \<^item> \<open>Error_during_bulk_create\<close>: models.py lines 57 and 115.
\<close>

datatype log_entry =
  Error_converting "cell option" exn
| No_data_found nat
| Empty_chunk nat
| Unsupported_format nat
| Error_processing_file exn
| No_valid_rows
| Duplicate_booking "int option"
| Duplicate_refund "int option"
| Error_during_bulk_create exn

text \<open>
  A computation that may raise and that logs: its result (\<open>Inl\<close> the exception
  raised) and the records it logged, in order. \<open>and_then\<close> runs a second
  computation on the result of the first one, unless the first one raised.
\<close>

type_synonym 'a logging = "(exn + 'a) \<times> log_entry list"

fun and_then :: "'a logging \<Rightarrow> ('a \<Rightarrow> 'b logging) \<Rightarrow> 'b logging" where
  "and_then (Inl e, l) f = (Inl e, l)"
| "and_then (Inr a, l) f = (case f a of (r, l') \<Rightarrow> (r, l @ l'))"

definition raise :: "exn \<Rightarrow> 'a logging" where
  "raise e = (Inl e, [])"

definition return :: "'a \<Rightarrow> 'a logging" where
  "return a = (Inr a, [])"

definition lift :: "exn + 'a \<Rightarrow> 'a logging" where
  "lift r = (r, [])"

text \<open>A \<^verbatim>\<open>for\<close> loop over a list that threads the loop's variables.\<close>

fun for_each :: "('a \<Rightarrow> 's \<Rightarrow> 's logging) \<Rightarrow> 'a list \<Rightarrow> 's \<Rightarrow> 's logging" where
  "for_each body [] s = return s"
| "for_each body (x # xs) s = and_then (body x s) (for_each body xs)"

subsection \<open>The environment: Python builtins, pandas and the store\<close>

text \<open>
  What the code calls and this repository does not define is a parameter of the model:
  \<^item> \<open>float_str s\<close> is \<^verbatim>\<open>float(s)\<close> on a string, \<open>None\<close> when it raises
    \<^verbatim>\<open>ValueError\<close>;
  \<^item> \<open>datetime_str s\<close> is \<^verbatim>\<open>pd.to_datetime(s, errors='coerce')\<close> on a string,
    \<open>None\<close> for \<^verbatim>\<open>NaT\<close>;
  \<^item> \<open>read_excel\<close> is \<^verbatim>\<open>pd.read_excel(BytesIO(content), dtype=str, engine='openpyxl')\<close>;
  \<^item> \<open>read_csv content n\<close> is \<^verbatim>\<open>pd.read_csv(..., chunksize=n)\<close>: the call may raise;
    otherwise it gives the chunks the reader yields one after the other, where
    reading a chunk may raise;
  \<^item> \<open>create_bookings table batch\<close> is
    \<^verbatim>\<open>cls.objects.bulk_create([cls(**t) for t in batch], batch_size=500, ignore_conflicts=True)\<close>
    inside \<^verbatim>\<open>transaction.atomic()\<close>, for the booking table: the exception it
    raises (then the transaction is rolled back and the table is as before), or the
    table after the insert; \<open>create_refunds\<close> is the same for the refund table.
  The type \<open>'f\<close> is the type of the contents of an uploaded file.
\<close>

record 'f env =
  float_str :: "py_str \<Rightarrow> py_float option"
  datetime_str :: "py_str \<Rightarrow> timestamp option"
  read_excel :: "'f \<Rightarrow> exn + dataframe"
  read_csv :: "'f \<Rightarrow> nat \<Rightarrow> exn + (exn + dataframe) list"
  create_bookings :: "tx list \<Rightarrow> tx list \<Rightarrow> exn + tx list"
  create_refunds :: "tx list \<Rightarrow> tx list \<Rightarrow> exn + tx list"

text \<open>\<^verbatim>\<open>pd.isna(val)\<close> and \<^verbatim>\<open>float(val)\<close>, for \<open>val\<close> a cell or \<^verbatim>\<open>None\<close>.\<close>

definition pd_isna :: "cell option \<Rightarrow> bool" where
  "pd_isna val = (case val of None \<Rightarrow> True | Some NaN \<Rightarrow> True | Some (Str s) \<Rightarrow> False)"

definition py_float_of :: "('f, 'x) env_scheme \<Rightarrow> cell option \<Rightarrow> exn + py_float" where
  "py_float_of E val =
     (case val of
        None \<Rightarrow> Inl TypeError
      | Some NaN \<Rightarrow> Inr FNan
      | Some (Str s) \<Rightarrow>
          (case float_str E s of None \<Rightarrow> Inl ValueError | Some f \<Rightarrow> Inr f))"

text \<open>
  \<^verbatim>\<open>pd.to_datetime(val, errors='coerce')\<close> for a cell or \<^verbatim>\<open>None\<close>: a missing
  cell and a string that does not parse give \<^verbatim>\<open>NaT\<close>. The value for \<^verbatim>\<open>None\<close>,
  taken to be \<^verbatim>\<open>None\<close>, plays no part: \<^verbatim>\<open>row.get\<close> gives \<^verbatim>\<open>None\<close> for an absent
  label, and the loops run only on chunks that have the date columns.
\<close>

definition pd_to_datetime :: "('f, 'x) env_scheme \<Rightarrow> cell option \<Rightarrow> pyval" where
  "pd_to_datetime E val =
     (case val of
        None \<Rightarrow> PyNone
      | Some NaN \<Rightarrow> NaT
      | Some (Str s) \<Rightarrow>
          (case datetime_str E s of None \<Rightarrow> NaT | Some t \<Rightarrow> PyTimestamp t))"

section \<open>Row Converter (tasks.py, \<^verbatim>\<open>convert_to_int\<close>)\<close>

text \<open>
  \<^verbatim>\<open>
  def convert_to_int(val):
      try:
          if pd.isna(val) or val == '':
              return None
          return int(float(val))
      except (ValueError, OverflowError) as e:
          logger.error(f"Error converting value to int: {val}. Error: {e}")
          return None
  \<close>
  \<open>convert_to_int_try\<close> is the body of the \<^verbatim>\<open>try\<close>; the handler catches
  \<^verbatim>\<open>ValueError\<close> and \<^verbatim>\<open>OverflowError\<close> only, any other exception propagates.
\<close>

definition convert_to_int_try :: "('f, 'x) env_scheme \<Rightarrow> cell option \<Rightarrow> exn + int option" where
  "convert_to_int_try E val =
     (if pd_isna val \<or> val = Some (Str []) then Inr None
      else case py_float_of E val of
             Inl e \<Rightarrow> Inl e
           | Inr f \<Rightarrow> (case int_of_float f of Inl e \<Rightarrow> Inl e | Inr n \<Rightarrow> Inr (Some n)))"

definition convert_to_int :: "('f, 'x) env_scheme \<Rightarrow> cell option \<Rightarrow> int option logging" where
  "convert_to_int E val =
     (case convert_to_int_try E val of
        Inr r \<Rightarrow> (Inr r, [])
      | Inl e \<Rightarrow>
          if e = ValueError \<or> e = OverflowError
          then (Inr None, [Error_converting val e])
          else (Inl e, []))"

section \<open>Column Normalizer (tasks.py, \<^verbatim>\<open>clean_column_name\<close>)\<close>

text \<open>
  \<^verbatim>\<open>
  def clean_column_name(column_name):
      parts = column_name.split()
      cleaned_name = ''.join(part for part in parts if part)
      cleaned_name = ''.join(char for char in cleaned_name if char not in ['.', '_']).strip()
      return cleaned_name
  \<close>
\<close>

definition clean_column_name :: "py_str \<Rightarrow> py_str" where
  "clean_column_name column_name =
     (let parts = py_split column_name;
          cleaned_name = concat (filter (\<lambda>part. part \<noteq> []) parts);
          cleaned_name =
            py_strip (filter (\<lambda>char. char \<notin> set [of_char CHR ''.'', of_char CHR ''_''])
              cleaned_name)
      in cleaned_name)"

section \<open>Bank Schema Registry (tasks.py, \<^verbatim>\<open>BANK_CODE_MAPPING\<close>, \<^verbatim>\<open>BANK_MAPPINGS\<close>)\<close>

text \<open>
  The two module-level dicts, as association lists. Of each entry of
  \<^verbatim>\<open>BANK_MAPPINGS\<close> the code reads the two \<^verbatim>\<open>'column_mapping'\<close> dicts only.
\<close>

record bank_mapping =
  booking_column_mapping :: "(py_str \<times> py_str) list"
  refund_column_mapping :: "(py_str \<times> py_str) list"

definition BANK_CODE_MAPPING :: "(py_str \<times> int) list" where
  "BANK_CODE_MAPPING = [(str ''hdfc'', 101), (str ''icici'', 102), (str ''karur_vysya'', 40)]"

definition BANK_MAPPINGS :: "(py_str \<times> bank_mapping) list" where
  "BANK_MAPPINGS =
     [(str ''karur_vysya'',
       \<lparr>booking_column_mapping =
          [(str ''IRCTCORDERNO'', str ''irctc_order_no''),
           (str ''BANKBOOKINGREFNO'', str ''bank_booking_ref_no''),
           (str ''BOOKINGAMOUNT'', str ''booking_amount''),
           (str ''TXNDATE'', str ''transaction_date''),
           (str ''CREDITEDON'', str ''credited_date'')],
        refund_column_mapping =
          [(str ''IRCTCORDERNO'', str ''irctc_order_no''),
           (str ''REFUNDAMOUNT'', str ''refund_amount''),
           (str ''DEBITEDON'', str ''debited_date''),
           (str ''REFUNDDATE'', str ''refund_date''),
           (str ''BANKBOOKINGREFNO'', str ''bank_booking_ref_no''),
           (str ''BANKREFUNDREFNO'', str ''bank_refund_ref_no'')]\<rparr>)]"

section \<open>Frames and rows\<close>

text \<open>
  \<^verbatim>\<open>xs[i:i + n] for i in range(0, len(xs), n)\<close>: the slices both the chunk loop and
  the sub-batch loop take.
\<close>

definition py_slices :: "nat \<Rightarrow> 'a list \<Rightarrow> 'a list list" where
  "py_slices n xs = map (\<lambda>k. take n (drop (k * n) xs)) [0..<(length xs + n - 1) div n]"

text \<open>
  A row of a frame is the list of its cells, in the order of the frame's columns.
  \<open>row_get\<close> is \<^verbatim>\<open>row.get(label)\<close> and \<open>row_item\<close> is \<^verbatim>\<open>row[label]\<close>, which
  raises \<^verbatim>\<open>KeyError\<close> for an absent label. Both are meant for frames whose column
  labels are distinct (for a repeated label pandas gives all its cells, the model the
  first one).
\<close>

definition row_get :: "py_str list \<Rightarrow> cell list \<Rightarrow> py_str \<Rightarrow> cell option" where
  "row_get cols row label = map_of (zip cols row) label"

definition row_item :: "py_str list \<Rightarrow> cell list \<Rightarrow> py_str \<Rightarrow> exn + cell" where
  "row_item cols row label =
     (case row_get cols row label of None \<Rightarrow> Inl KeyError | Some c \<Rightarrow> Inr c)"

text \<open>
  The dict passed to \<^verbatim>\<open>df_chunk.rename\<close> (lines 131 to 138): the five booking
  entries, each read from the booking mapping (\<^verbatim>\<open>KeyError\<close> when it is absent), then
  the refund entries whose key is a column of the chunk, which override. In an
  association list the first entry of a key counts, so the refund entries come first.
\<close>

definition rename_dict :: "bank_mapping \<Rightarrow> py_str list \<Rightarrow> exn + (py_str \<times> py_str) list" where
  "rename_dict m cols =
     (let booking_col_mapping = booking_column_mapping m;
          refund_col_mapping = refund_column_mapping m;
          keys = [str ''IRCTCORDERNO'', str ''BANKBOOKINGREFNO'', str ''BOOKINGAMOUNT'',
                  str ''TXNDATE'', str ''CREDITEDON'']
      in if list_all (\<lambda>k. map_of booking_col_mapping k \<noteq> None) keys
         then Inr (filter (\<lambda>(k, v). k \<in> set cols) refund_col_mapping @
                   List.map_filter
                     (\<lambda>k. map_option (\<lambda>v. (k, v)) (map_of booking_col_mapping k)) keys)
         else Inl KeyError)"

definition rename_columns :: "(py_str \<times> py_str) list \<Rightarrow> py_str list \<Rightarrow> py_str list" where
  "rename_columns d cols = map (\<lambda>c. case map_of d c of None \<Rightarrow> c | Some v \<Rightarrow> v) cols"

text \<open>
  \<^verbatim>\<open>df.dropna(subset=labels)\<close>: \<^verbatim>\<open>KeyError\<close> when a label is not a column;
  otherwise the rows with a missing cell under one of the labels are dropped.
\<close>

definition dropna :: "py_str list \<Rightarrow> dataframe \<Rightarrow> exn + dataframe" where
  "dropna labels df =
     (if list_all (\<lambda>c. c \<in> set (columns df)) labels
      then Inr (df\<lparr>rows :=
             filter (\<lambda>row. list_all (\<lambda>c. row_get (columns df) row c \<noteq> Some NaN) labels)
               (rows df)\<rparr>)
      else Inl KeyError)"

text \<open>\<^verbatim>\<open>df.empty\<close>: no row or no column.\<close>

definition frame_empty :: "dataframe \<Rightarrow> bool" where
  "frame_empty df \<longleftrightarrow> rows df = [] \<or> columns df = []"

section \<open>Dedup and Batch Assembler (tasks.py, \<^verbatim>\<open>process_dataframe_chunk\<close>, lines 112 to 218)\<close>

text \<open>
  The conversions of one row. \<open>opt_int\<close> is the dict value of a converted key;
  \<open>truthy\<close> is Python's truth value of a dict value in an \<^verbatim>\<open>if\<close>;
  \<open>float_or_default\<close> is \<^verbatim>\<open>float(row.get(label, 0.0))\<close>, given \<^verbatim>\<open>row.get(label)\<close>:
  the default \<^verbatim>\<open>0.0\<close> stands in for an absent label only.
\<close>

definition opt_int :: "int option \<Rightarrow> pyval" where
  "opt_int v = (case v of None \<Rightarrow> PyNone | Some n \<Rightarrow> PyInt n)"

definition truthy :: "pyval \<Rightarrow> bool" where
  "truthy v =
     (case v of
        PyNone \<Rightarrow> False
      | PyInt n \<Rightarrow> n \<noteq> 0
      | PyFloat f \<Rightarrow> f \<noteq> Finite 0
      | PyTimestamp t \<Rightarrow> True
      | NaT \<Rightarrow> True)"

definition float_or_default :: "('f, 'x) env_scheme \<Rightarrow> cell option \<Rightarrow> exn + py_float" where
  "float_or_default E val =
     (case val of None \<Rightarrow> Inr (Finite 0) | Some c \<Rightarrow> py_float_of E (Some c))"

text \<open>
  The body of the booking loop (lines 170 to 189), on the list of accepted records
  and the set \<^verbatim>\<open>seen_booking_orders\<close>:
  \<^verbatim>\<open>
  irctc_order_no = convert_to_int(row['irctc_order_no'])
  bank_booking_ref_no = convert_to_int(row['bank_booking_ref_no'])
  if irctc_order_no in seen_booking_orders or bank_booking_ref_no in seen_booking_orders:
      logger.warning(...)
      continue
  transaction_data = {
      'bank_code': BANK_CODE_MAPPING.get(bank_name),
      'irctc_order_no': irctc_order_no,
      'bank_booking_ref_no': bank_booking_ref_no,
      'booking_amount': float(row.get('booking_amount', 0.0)),
      'transaction_date': pd.to_datetime(row.get('transaction_date'), errors='coerce'),
      'credited_date': pd.to_datetime(row.get('credited_date'), errors='coerce'),
  }
  if transaction_data['irctc_order_no'] and transaction_data['bank_booking_ref_no']:
      bulk_data_bookings.append(transaction_data)
      seen_booking_orders.add(irctc_order_no)
  \<close>
\<close>

definition booking_row ::
  "('f, 'x) env_scheme \<Rightarrow> py_str \<Rightarrow> py_str list \<Rightarrow> cell list \<Rightarrow>
   tx list \<times> int option set \<Rightarrow> (tx list \<times> int option set) logging" where
  "booking_row E bank_name cols row acc =
     (case acc of (bulk_data_bookings, seen_booking_orders) \<Rightarrow>
      and_then (lift (row_item cols row (str ''irctc_order_no''))) (\<lambda>c1.
      and_then (convert_to_int E (Some c1)) (\<lambda>irctc_order_no.
      and_then (lift (row_item cols row (str ''bank_booking_ref_no''))) (\<lambda>c2.
      and_then (convert_to_int E (Some c2)) (\<lambda>bank_booking_ref_no.
        if irctc_order_no \<in> seen_booking_orders \<or> bank_booking_ref_no \<in> seen_booking_orders
        then (Inr acc, [Duplicate_booking irctc_order_no])
        else
          and_then (lift (float_or_default E (row_get cols row (str ''booking_amount'')))) (\<lambda>amount.
            let transaction_data =
                  [(''bank_code'', opt_int (map_of BANK_CODE_MAPPING bank_name)),
                   (''irctc_order_no'', opt_int irctc_order_no),
                   (''bank_booking_ref_no'', opt_int bank_booking_ref_no),
                   (''booking_amount'', PyFloat amount),
                   (''transaction_date'',
                      pd_to_datetime E (row_get cols row (str ''transaction_date''))),
                   (''credited_date'',
                      pd_to_datetime E (row_get cols row (str ''credited_date'')))]
            in if truthy (opt_int irctc_order_no) \<and> truthy (opt_int bank_booking_ref_no)
               then return (bulk_data_bookings @ [transaction_data],
                            insert irctc_order_no seen_booking_orders)
               else return acc))))))"

text \<open>The body of the refund loop (lines 199 to 218), written in the same way.\<close>

definition refund_row ::
  "('f, 'x) env_scheme \<Rightarrow> py_str \<Rightarrow> py_str list \<Rightarrow> cell list \<Rightarrow>
   tx list \<times> int option set \<Rightarrow> (tx list \<times> int option set) logging" where
  "refund_row E bank_name cols row acc =
     (case acc of (bulk_data_refunds, seen_refund_orders) \<Rightarrow>
      and_then (lift (row_item cols row (str ''irctc_order_no''))) (\<lambda>c1.
      and_then (convert_to_int E (Some c1)) (\<lambda>irctc_order_no.
      and_then (lift (row_item cols row (str ''bank_refund_ref_no''))) (\<lambda>c2.
      and_then (convert_to_int E (Some c2)) (\<lambda>bank_refund_ref_no.
        if irctc_order_no \<in> seen_refund_orders \<or> bank_refund_ref_no \<in> seen_refund_orders
        then (Inr acc, [Duplicate_refund irctc_order_no])
        else
          and_then (convert_to_int E (row_get cols row (str ''bank_booking_ref_no''))) (\<lambda>bank_booking_ref_no.
          and_then (lift (float_or_default E (row_get cols row (str ''refund_amount'')))) (\<lambda>amount.
            let transaction_data =
                  [(''bank_code'', opt_int (map_of BANK_CODE_MAPPING bank_name)),
                   (''irctc_order_no'', opt_int irctc_order_no),
                   (''bank_booking_ref_no'', opt_int bank_booking_ref_no),
                   (''bank_refund_ref_no'', opt_int bank_refund_ref_no),
                   (''refund_amount'', PyFloat amount),
                   (''refund_date'', pd_to_datetime E (row_get cols row (str ''refund_date''))),
                   (''debited_date'', pd_to_datetime E (row_get cols row (str ''debited_date'')))]
            in if truthy (opt_int irctc_order_no) \<and> truthy (opt_int bank_refund_ref_no)
               then return (bulk_data_refunds @ [transaction_data],
                            insert irctc_order_no seen_refund_orders)
               else return acc)))))))"

text \<open>
  Lines 112 to 218 of \<^verbatim>\<open>process_dataframe_chunk\<close>: the columns are cleaned and
  renamed, the rows with a missing order number or booking reference are dropped,
  and the two loops collect \<^verbatim>\<open>bulk_data_bookings\<close> and \<^verbatim>\<open>bulk_data_refunds\<close>. The
  early \<^verbatim>\<open>return\<close> of line 152 leaves nothing to insert: it is the result with both
  lists empty.
\<close>

definition assemble ::
  "('f, 'x) env_scheme \<Rightarrow> dataframe \<Rightarrow> py_str \<Rightarrow> py_str \<Rightarrow> (tx list \<times> tx list) logging" where
  "assemble E df_chunk bank_name transaction_type =
     (let cleaned_columns = map clean_column_name (columns df_chunk) in
      case map_of BANK_MAPPINGS bank_name of
        None \<Rightarrow> raise KeyError
      | Some m \<Rightarrow>
      and_then (lift (rename_dict m cleaned_columns)) (\<lambda>d.
      let df_renamed = df_chunk\<lparr>columns := rename_columns d cleaned_columns\<rparr>;
          common_columns = [str ''irctc_order_no'', str ''bank_booking_ref_no'']
      in
      and_then (lift (dropna common_columns df_renamed)) (\<lambda>df.
      if frame_empty df then (Inr ([], []), [No_valid_rows])
      else
        let expected_booking_columns =
              [str ''transaction_date'', str ''irctc_order_no'', str ''bank_booking_ref_no'',
               str ''booking_amount'', str ''credited_date''];
            has_required_booking_columns =
              list_all (\<lambda>col. col \<in> set (columns df)) expected_booking_columns;
            expected_refund_columns =
              [str ''refund_date'', str ''irctc_order_no'', str ''bank_booking_ref_no'',
               str ''bank_refund_ref_no'', str ''refund_amount'', str ''debited_date''];
            has_required_refund_columns =
              list_all (\<lambda>col. col \<in> set (columns df)) expected_refund_columns
        in
        and_then
          (if transaction_type \<in> set [str ''both'', str ''booking''] \<and> has_required_booking_columns
           then for_each (booking_row E bank_name (columns df)) (rows df) ([], {})
           else return ([], {})) (\<lambda>(bulk_data_bookings, seen_booking_orders).
        and_then
          (if transaction_type \<in> set [str ''both'', str ''refund''] \<and> has_required_refund_columns
           then for_each (refund_row E bank_name (columns df)) (rows df) ([], {})
           else return ([], {})) (\<lambda>(bulk_data_refunds, seen_refund_orders).
        return (bulk_data_bookings, bulk_data_refunds))))))"

section \<open>Bulk Loader (models.py, \<^verbatim>\<open>bulk_create_booking_transactions\<close> and
  \<^verbatim>\<open>bulk_create_refund_transactions\<close>)\<close>

text \<open>
  The state of the store: the rows of the two tables, and for each table the
  batches \<^verbatim>\<open>bulk_create\<close> was called with so far, in order (a batch is recorded
  whether its insert succeeds or raises). \<open>logged\<close> is the log written so far.
\<close>

record world =
  booking_table :: "tx list"
  refund_table :: "tx list"
  booking_inserts :: "tx list list"
  refund_inserts :: "tx list list"
  logged :: "log_entry list"

type_synonym 'a effect = "world \<Rightarrow> (exn + 'a) \<times> world"

text \<open>\<^verbatim>\<open>tx.get(key)\<close>: \<^verbatim>\<open>None\<close> for an absent key.\<close>

definition dict_get :: "tx \<Rightarrow> string \<Rightarrow> pyval" where
  "dict_get t k = (case map_of t k of None \<Rightarrow> PyNone | Some v \<Rightarrow> v)"

text \<open>
  \<^verbatim>\<open>
  existing_orders = set(cls.objects.filter(
      irctc_order_no__in={tx['irctc_order_no'] for tx in transactions if 'irctc_order_no' in tx}
  ).values_list('irctc_order_no', flat=True))
  \<close>
  The order numbers of the table's rows that are among the candidates' order numbers;
  a \<^verbatim>\<open>NULL\<close> of the table matches nothing. The query reads the table; a failure of
  the query itself, which would end the call before any insert, is not modelled.
\<close>

definition existing_orders :: "tx list \<Rightarrow> tx list \<Rightarrow> pyval list" where
  "existing_orders table transactions =
     (let keys = List.map_filter (\<lambda>tx. map_of tx ''irctc_order_no'') transactions
      in filter (\<lambda>v. v \<noteq> PyNone \<and> v \<in> set keys)
           (List.map_filter (\<lambda>row. map_of row ''irctc_order_no'') table))"

text \<open>
  The loop over the sub-batches (lines 48 to 58 and 106 to 116): the insert of each
  sub-batch runs in a transaction of its own; an exception is logged and raised
  again, which ends the loop.
\<close>

fun insert_batches ::
  "(tx list \<Rightarrow> tx list \<Rightarrow> exn + tx list) \<Rightarrow> tx list list \<Rightarrow> tx list \<Rightarrow> tx list list \<Rightarrow>
   unit logging \<times> tx list \<times> tx list list" where
  "insert_batches create [] table attempts = (return (), table, attempts)"
| "insert_batches create (b # bs) table attempts =
     (case create table b of
        Inl ex \<Rightarrow> ((Inl ex, [Error_during_bulk_create ex]), table, attempts @ [b])
      | Inr table' \<Rightarrow> insert_batches create bs table' (attempts @ [b]))"

text \<open>
  The two class methods have the same text, each for the table of its class:
  \<^verbatim>\<open>
  new_transactions = [tx for tx in transactions if tx.get('irctc_order_no') not in existing_orders]
  if new_transactions:
      batch_size = 500
      for i in range(0, len(new_transactions), batch_size):
          try:
              with transaction.atomic():
                  cls.objects.bulk_create(
                      [cls(**transaction) for transaction in new_transactions[i:i + batch_size]],
                      batch_size=batch_size, ignore_conflicts=True)
          except Exception as ex:
              logger.error(f"Error during bulk create: {str(ex)}")
              raise
      return len(new_transactions)
  return 0
  \<close>
\<close>

definition new_transactions_of :: "tx list \<Rightarrow> tx list \<Rightarrow> tx list" where
  "new_transactions_of table transactions =
     filter (\<lambda>tx. dict_get tx ''irctc_order_no'' \<notin> set (existing_orders table transactions))
       transactions"

definition bulk_create_transactions ::
  "(tx list \<Rightarrow> tx list \<Rightarrow> exn + tx list) \<Rightarrow> tx list \<Rightarrow> tx list \<Rightarrow> tx list list \<Rightarrow>
   nat logging \<times> tx list \<times> tx list list" where
  "bulk_create_transactions create transactions table attempts =
     (let new_transactions = new_transactions_of table transactions
      in if new_transactions \<noteq> []
         then (let batch_size = 500 in
               case insert_batches create (py_slices batch_size new_transactions) table attempts of
                 ((Inl ex, l), table', attempts') \<Rightarrow> ((Inl ex, l), table', attempts')
               | ((Inr u, l), table', attempts') \<Rightarrow>
                   ((Inr (length new_transactions), l), table', attempts'))
         else (return 0, table, attempts))"

definition bulk_create_booking_transactions ::
  "('f, 'x) env_scheme \<Rightarrow> tx list \<Rightarrow> nat effect" where
  "bulk_create_booking_transactions E transactions w =
     (case bulk_create_transactions (create_bookings E) transactions
             (booking_table w) (booking_inserts w) of
        ((r, l), table', attempts') \<Rightarrow>
          (r, w\<lparr>booking_table := table', booking_inserts := attempts',
                 logged := logged w @ l\<rparr>))"

definition bulk_create_refund_transactions ::
  "('f, 'x) env_scheme \<Rightarrow> tx list \<Rightarrow> nat effect" where
  "bulk_create_refund_transactions E transactions w =
     (case bulk_create_transactions (create_refunds E) transactions
             (refund_table w) (refund_inserts w) of
        ((r, l), table', attempts') \<Rightarrow>
          (r, w\<lparr>refund_table := table', refund_inserts := attempts',
                 logged := logged w @ l\<rparr>))"

section \<open>Pipeline Orchestrator (tasks.py, \<^verbatim>\<open>process_dataframe_chunk\<close> and
  \<^verbatim>\<open>process_uploaded_files\<close>)\<close>

text \<open>
  \<^verbatim>\<open>process_dataframe_chunk\<close>: the records are assembled (lines 112 to 218), then
  \<^verbatim>\<open>
  if bulk_data_bookings:
      BookingTransaction.bulk_create_booking_transactions(bulk_data_bookings)
  if bulk_data_refunds:
      RefundTransaction.bulk_create_refund_transactions(bulk_data_refunds)
  \<close>
\<close>

definition process_dataframe_chunk ::
  "('f, 'x) env_scheme \<Rightarrow> dataframe \<Rightarrow> py_str \<Rightarrow> py_str \<Rightarrow> unit effect" where
  "process_dataframe_chunk E df_chunk bank_name transaction_type w =
     (case assemble E df_chunk bank_name transaction_type of
        (Inl e, l) \<Rightarrow> (Inl e, w\<lparr>logged := logged w @ l\<rparr>)
      | (Inr (bulk_data_bookings, bulk_data_refunds), l) \<Rightarrow>
          (let w1 = w\<lparr>logged := logged w @ l\<rparr> in
           case (if bulk_data_bookings \<noteq> []
                 then bulk_create_booking_transactions E bulk_data_bookings w1
                 else (Inr 0, w1)) of
             (Inl e, w2) \<Rightarrow> (Inl e, w2)
           | (Inr n, w2) \<Rightarrow>
               (case (if bulk_data_refunds \<noteq> []
                      then bulk_create_refund_transactions E bulk_data_refunds w2
                      else (Inr 0, w2)) of
                  (Inl e, w3) \<Rightarrow> (Inl e, w3)
                | (Inr n', w3) \<Rightarrow> (Inr (), w3))))"

text \<open>A \<^verbatim>\<open>for\<close> loop whose body acts on the store.\<close>

fun for_each_do :: "('a \<Rightarrow> unit effect) \<Rightarrow> 'a list \<Rightarrow> unit effect" where
  "for_each_do body [] w = (Inr (), w)"
| "for_each_do body (x # xs) w =
     (case body x w of (Inl e, w') \<Rightarrow> (Inl e, w') | (Inr u, w') \<Rightarrow> for_each_do body xs w')"

text \<open>\<^verbatim>\<open>df.iloc[start_row:start_row + chunk_size]\<close> for each \<^verbatim>\<open>start_row\<close> of the loop.\<close>

definition frame_slices :: "nat \<Rightarrow> dataframe \<Rightarrow> dataframe list" where
  "frame_slices chunk_size df = map (\<lambda>rs. df\<lparr>rows := rs\<rparr>) (py_slices chunk_size (rows df))"

text \<open>
  The body of the loop over the files (lines 71 to 105) ends in one of three ways: it
  raises, it reaches its end (\<open>Next\<close>: the loop goes on with the next file), or it
  executes the \<^verbatim>\<open>return\<close> of line 82 (\<open>Return\<close>: the function returns).
\<close>

datatype flow = Next | Return

definition csv_chunk ::
  "('f, 'x) env_scheme \<Rightarrow> py_str \<Rightarrow> py_str \<Rightarrow> nat \<Rightarrow> exn + dataframe \<Rightarrow> unit effect" where
  "csv_chunk E bank_name transaction_type file_index c w =
     (case c of
        Inl e \<Rightarrow> (Inl e, w)
      | Inr chunk \<Rightarrow>
          if frame_empty chunk
          then (Inr (), w\<lparr>logged := logged w @ [Empty_chunk file_index]\<rparr>)
          else process_dataframe_chunk E chunk bank_name transaction_type w)"

definition process_file ::
  "('f, 'x) env_scheme \<Rightarrow> py_str \<Rightarrow> py_str \<Rightarrow> py_str \<Rightarrow> nat \<Rightarrow> 'f \<Rightarrow> flow effect" where
  "process_file E bank_name transaction_type file_format file_index file_content w =
     (if file_format = str ''excel'' then
        (case read_excel E file_content of
           Inl e \<Rightarrow> (Inl e, w)
         | Inr df \<Rightarrow>
             (let total_rows = length (rows df) in
              if total_rows = 0
              then (Inr Return, w\<lparr>logged := logged w @ [No_data_found file_index]\<rparr>)
              else (let chunk_size = 50000 in
                    case for_each_do
                           (\<lambda>df_chunk. process_dataframe_chunk E df_chunk bank_name transaction_type)
                           (frame_slices chunk_size df) w of
                      (Inl e, w') \<Rightarrow> (Inl e, w')
                    | (Inr u, w') \<Rightarrow> (Inr Next, w'))))
      else if file_format = str ''csv'' then
        (case read_csv E file_content 50000 of
           Inl e \<Rightarrow> (Inl e, w)
         | Inr chunks \<Rightarrow>
             (case for_each_do (csv_chunk E bank_name transaction_type file_index) chunks w of
                (Inl e, w') \<Rightarrow> (Inl e, w')
              | (Inr u, w') \<Rightarrow> (Inr Next, w')))
      else (Inl ValueError, w\<lparr>logged := logged w @ [Unsupported_format file_index]\<rparr>))"

fun files_loop ::
  "('f, 'x) env_scheme \<Rightarrow> py_str \<Rightarrow> py_str \<Rightarrow> py_str \<Rightarrow> nat \<Rightarrow> 'f list \<Rightarrow> flow effect" where
  "files_loop E bank_name transaction_type file_format file_index [] w = (Inr Next, w)"
| "files_loop E bank_name transaction_type file_format file_index (file_content # files) w =
     (case process_file E bank_name transaction_type file_format file_index file_content w of
        (Inr Next, w') \<Rightarrow>
          files_loop E bank_name transaction_type file_format (Suc file_index) files w'
      | (Inr Return, w') \<Rightarrow> (Inr Return, w')
      | (Inl e, w') \<Rightarrow> (Inl e, w'))"

text \<open>
  \<^verbatim>\<open>process_uploaded_files\<close>: the loop over the files inside \<^verbatim>\<open>try\<close>; the handler
  logs the exception and raises it again. Both the end of the loop and the
  \<^verbatim>\<open>return\<close> of line 82 make the function return \<^verbatim>\<open>None\<close>.
\<close>

definition process_uploaded_files ::
  "('f, 'x) env_scheme \<Rightarrow> 'f list \<Rightarrow> py_str \<Rightarrow> py_str \<Rightarrow> py_str \<Rightarrow> unit effect" where
  "process_uploaded_files E files bank_name transaction_type file_format w =
     (case files_loop E bank_name transaction_type file_format 0 files w of
        (Inl e, w') \<Rightarrow> (Inl e, w'\<lparr>logged := logged w' @ [Error_processing_file e]\<rparr>)
      | (Inr fl, w') \<Rightarrow> (Inr (), w'))"

section \<open>An environment for the worked examples\<close>

text \<open>
  The theorems below hold for every environment. The examples are evaluated in the
  environment \<open>example_env\<close>, built from the following functions.

  \<open>decimal_float\<close> reads a string as \<^verbatim>\<open>float\<close> does: whitespace is stripped, then
  comes an optional sign and \<^verbatim>\<open>inf\<close>, \<^verbatim>\<open>infinity\<close> or \<^verbatim>\<open>nan\<close> in any case, or a
  decimal numeral of ASCII digits with an optional fraction and exponent, with single
  underscores between digits. A numeral stands for its exact value, or for an
  infinity from \<open>2^1024 - 2^970\<close> on; the rounding to the nearest binary64 number is
  not modelled, so \<open>decimal_float\<close> is \<^verbatim>\<open>float\<close> on the numerals whose value is a
  binary64 number, among them the integers below \<open>2^53\<close>.
\<close>

definition is_digit :: "nat \<Rightarrow> bool" where
  "is_digit c \<longleftrightarrow> 48 \<le> c \<and> c \<le> 57"

definition to_lower :: "nat \<Rightarrow> nat" where
  "to_lower c = (if 65 \<le> c \<and> c \<le> 90 then c + 32 else c)"

fun digits_value :: "nat \<Rightarrow> py_str \<Rightarrow> nat" where
  "digits_value acc [] = acc"
| "digits_value acc (c # cs) = digits_value (10 * acc + (c - 48)) cs"

text \<open>The digits of a digit part without its underscores; \<open>None\<close> when it is malformed.\<close>

fun digitpart :: "py_str \<Rightarrow> py_str option" where
  "digitpart [] = Some []"
| "digitpart [c] = (if is_digit c then Some [c] else None)"
| "digitpart (c # u # cs) =
     (if \<not> is_digit c then None
      else if u = of_char CHR ''_''
           then (case cs of
                   [] \<Rightarrow> None
                 | d # ds \<Rightarrow> if is_digit d then map_option ((#) c) (digitpart cs) else None)
           else map_option ((#) c) (digitpart (u # cs)))"

definition split_sign :: "py_str \<Rightarrow> bool \<times> py_str" where
  "split_sign s =
     (case s of
        [] \<Rightarrow> (False, [])
      | c # cs \<Rightarrow>
          if c = of_char CHR ''-'' then (True, cs)
          else if c = of_char CHR ''+'' then (False, cs)
          else (False, s))"

definition decimal_exponent :: "py_str \<Rightarrow> int option" where
  "decimal_exponent s =
     (case s of
        [] \<Rightarrow> Some 0
      | e # cs \<Rightarrow>
          (case split_sign cs of (neg, ds) \<Rightarrow>
           (case digitpart ds of
              None \<Rightarrow> None
            | Some d \<Rightarrow>
                if d = [] then None
                else Some (if neg then - int (digits_value 0 d) else int (digits_value 0 d)))))"

definition decimal_value :: "py_str \<Rightarrow> rat option" where
  "decimal_value s =
     (let is_e = (\<lambda>c. c = of_char CHR ''e'' \<or> c = of_char CHR ''E'');
          mantissa = takeWhile (\<lambda>c. \<not> is_e c) s;
          int_part = takeWhile (\<lambda>c. c \<noteq> of_char CHR ''.'') mantissa;
          frac_part = drop 1 (dropWhile (\<lambda>c. c \<noteq> of_char CHR ''.'') mantissa)
      in case (digitpart int_part, digitpart frac_part,
               decimal_exponent (dropWhile (\<lambda>c. \<not> is_e c) s)) of
           (Some i, Some f, Some e) \<Rightarrow>
             if i @ f = [] then None
             else (let m = of_nat (digits_value 0 (i @ f)); k = e - int (length f)
                   in Some (if 0 \<le> k then m * 10 ^ nat k else m / 10 ^ nat (- k)))
         | _ \<Rightarrow> None)"

definition decimal_float :: "py_str \<Rightarrow> py_float option" where
  "decimal_float s =
     (case split_sign (py_strip s) of (neg, body) \<Rightarrow>
      if map to_lower body \<in> set [str ''inf'', str ''infinity''] then Some (FInf (\<not> neg))
      else if map to_lower body = str ''nan'' then Some FNan
      else case decimal_value body of
             None \<Rightarrow> None
           | Some v \<Rightarrow>
               if 2 ^ 1024 - 2 ^ 970 \<le> v then Some (FInf (\<not> neg))
               else Some (Finite (if neg then - v else v)))"

text \<open>
  \<open>iso_date\<close> reads a date written \<^verbatim>\<open>YYYY-MM-DD\<close>, as \<^verbatim>\<open>pd.to_datetime\<close> does: the
  timestamp of its midnight, and \<^verbatim>\<open>NaT\<close> for a date that does not exist or that is
  out of the range of a timestamp. A string of another form is \<^verbatim>\<open>NaT\<close> here; the
  examples use dates of this form, strings that are no dates at all, and missing cells.
\<close>

definition days_in_month :: "int \<Rightarrow> int \<Rightarrow> int" where
  "days_in_month y m =
     (if m = 2 then (if y mod 4 = 0 \<and> (y mod 100 \<noteq> 0 \<or> y mod 400 = 0) then 29 else 28)
      else if m \<in> set [4, 6, 9, 11] then 30 else 31)"

definition days_from_civil :: "int \<Rightarrow> int \<Rightarrow> int \<Rightarrow> int" where
  "days_from_civil y m d =
     (let y' = (if m \<le> 2 then y - 1 else y);
          era = y' div 400;
          yoe = y' - era * 400;
          doy = (153 * (if 2 < m then m - 3 else m + 9) + 2) div 5 + d - 1;
          doe = yoe * 365 + yoe div 4 - yoe div 100 + doy
      in era * 146097 + doe - 719468)"

definition civil_timestamp :: "int \<Rightarrow> int \<Rightarrow> int \<Rightarrow> timestamp option" where
  "civil_timestamp y m d =
     (if 1 \<le> m \<and> m \<le> 12 \<and> 1 \<le> d \<and> d \<le> days_in_month y m
      then (let ns = days_from_civil y m d * 86400000000000
            in if - (2 ^ 63) < ns \<and> ns < 2 ^ 63 then Some (Timestamp ns) else None)
      else None)"

fun iso_date :: "py_str \<Rightarrow> timestamp option" where
  "iso_date [y1, y2, y3, y4, h1, m1, m2, h2, d1, d2] =
     (if list_all is_digit [y1, y2, y3, y4, m1, m2, d1, d2] \<and>
         h1 = of_char CHR ''-'' \<and> h2 = of_char CHR ''-''
      then civil_timestamp (int (digits_value 0 [y1, y2, y3, y4]))
             (int (digits_value 0 [m1, m2])) (int (digits_value 0 [d1, d2]))
      else None)"
| "iso_date s = None"

text \<open>
  The store of the examples appends a batch to the table, and raises when a record of
  the batch holds an integer that does not fit the 64-bit column of the tables
  (\<^verbatim>\<open>BigIntegerField\<close>).
\<close>

definition fits_bigint :: "pyval \<Rightarrow> bool" where
  "fits_bigint v = (case v of PyInt n \<Rightarrow> - (2 ^ 63) \<le> n \<and> n < 2 ^ 63 | _ \<Rightarrow> True)"

definition bigint_create :: "tx list \<Rightarrow> tx list \<Rightarrow> exn + tx list" where
  "bigint_create table batch =
     (if list_all (\<lambda>t. list_all (\<lambda>(k, v). fits_bigint v) t) batch
      then Inr (table @ batch) else Inl DatabaseError)"

text \<open>
  In the examples the contents of a file is the frame it holds. The examples read
  their files as Excel; the reader of CSV files of this environment gives the slices of
  the frame, and one empty chunk for a frame without rows.
\<close>

definition example_env :: "dataframe env" where
  "example_env =
     \<lparr>float_str = decimal_float,
      datetime_str = iso_date,
      read_excel = Inr,
      read_csv = (\<lambda>df n. Inr (if rows df = [] then [Inr df] else map Inr (frame_slices n df))),
      create_bookings = bigint_create,
      create_refunds = bigint_create\<rparr>"

definition empty_world :: world where
  "empty_world =
     \<lparr>booking_table = [], refund_table = [], booking_inserts = [], refund_inserts = [],
      logged = []\<rparr>"

section \<open>Notions used to state the properties\<close>

text \<open>
  The order number of a candidate record is already present in a table: the record
  has an order number that is not \<^verbatim>\<open>None\<close>, and a row of the table has the same one.
\<close>

definition order_in_table :: "tx list \<Rightarrow> tx \<Rightarrow> bool" where
  "order_in_table table t =
     (case map_of t ''irctc_order_no'' of
        None \<Rightarrow> False
      | Some v \<Rightarrow> v \<noteq> PyNone \<and> list_ex (\<lambda>row. map_of row ''irctc_order_no'' = Some v) table)"

text \<open>
  The records \<^verbatim>\<open>bulk_create\<close> was called with between two states of the list of
  batches of a table.
\<close>

definition new_inserts :: "tx list list \<Rightarrow> tx list list \<Rightarrow> tx list" where
  "new_inserts before after = concat (drop (length before) after)"

text \<open>
  The table after the inserts of the given batches, one after the other, when none of
  them raises.
\<close>

fun commit_all ::
  "(tx list \<Rightarrow> tx list \<Rightarrow> exn + tx list) \<Rightarrow> tx list \<Rightarrow> tx list list \<Rightarrow> tx list option" where
  "commit_all create table [] = Some table"
| "commit_all create table (b # bs) =
     (case create table b of Inl e \<Rightarrow> None | Inr table' \<Rightarrow> commit_all create table' bs)"

subsection \<open>Chunks, keys and accepted rows\<close>




text \<open>
  The key of a row under a label, after conversion: what \<open>convert_to_int\<close> returns for
  the cell (\<open>None\<close> is Python's \<^verbatim>\<open>None\<close>).
\<close>

definition converted_key ::
  "('f, 'x) env_scheme \<Rightarrow> py_str list \<Rightarrow> py_str \<Rightarrow> cell list \<Rightarrow> int option" where
  "converted_key E cols label row =
     (case row_get cols row label of
        None \<Rightarrow> None
      | Some c \<Rightarrow> (case fst (convert_to_int E (Some c)) of Inl e \<Rightarrow> None | Inr v \<Rightarrow> v))"



text \<open>A date cell fails to parse: it is missing, or a string that is no date.\<close>

definition date_fails :: "('f, 'x) env_scheme \<Rightarrow> cell option \<Rightarrow> bool" where
  "date_fails E val =
     (case val of
        None \<Rightarrow> False
      | Some NaN \<Rightarrow> True
      | Some (Str s) \<Rightarrow> datetime_str E s = None)"

text \<open>A chunk the reader of CSV files yields without an exception and without data rows.\<close>

definition zero_row_chunk :: "exn + dataframe \<Rightarrow> bool" where
  "zero_row_chunk c = (case c of Inl e \<Rightarrow> False | Inr df \<Rightarrow> rows df = [])"

subsection \<open>Data of the worked examples\<close>

text \<open>
  Records that hold an order number only, a store whose two tables hold order
  \<open>1001\<close>, the records of the orders \<open>1\<close> to \<open>n\<close>, and a record whose order
  number does not fit a 64-bit column.
\<close>

definition order_only :: "int \<Rightarrow> tx" where
  "order_only n = [(''irctc_order_no'', PyInt n)]"

definition stocked_world :: world where
  "stocked_world =
     empty_world\<lparr>booking_table := [order_only 1001], refund_table := [order_only 1001]\<rparr>"

definition order_run :: "nat \<Rightarrow> tx list" where
  "order_run n = map (\<lambda>i. order_only (int i)) [1..<Suc n]"

definition oversized :: tx where
  "oversized = order_only (2 ^ 63)"

text \<open>
  The amount cell of a row converts: it is absent, missing, or a string that
  \<^verbatim>\<open>float\<close> accepts.
\<close>

definition amount_converts ::
  "('f, 'x) env_scheme \<Rightarrow> py_str list \<Rightarrow> cell list \<Rightarrow> py_str \<Rightarrow> bool" where
  "amount_converts E cols row label =
     (case float_or_default E (row_get cols row label) of Inl e \<Rightarrow> False | Inr a \<Rightarrow> True)"

text \<open>The order number of a record, when it is an integer.\<close>

definition order_key :: "tx \<Rightarrow> int option" where
  "order_key t = (case dict_get t ''irctc_order_no'' of PyInt n \<Rightarrow> Some n | _ \<Rightarrow> None)"

text \<open>
  The rows \<^verbatim>\<open>dropna\<close> keeps: neither the order number nor the booking reference is
  missing.
\<close>

definition not_dropped :: "py_str list \<Rightarrow> cell list \<Rightarrow> bool" where
  "not_dropped cols row \<longleftrightarrow>
     row_get cols row (str ''irctc_order_no'') \<noteq> Some NaN \<and>
     row_get cols row (str ''bank_booking_ref_no'') \<noteq> Some NaN"

text \<open>
  Files with the headers of the bank \<^verbatim>\<open>karur_vysya\<close>, as \<^verbatim>\<open>BANK_MAPPINGS\<close> lists
  them, and the labels of their columns after cleaning and renaming. \<open>text_cell\<close> is a cell
  that holds a string.
\<close>

definition booking_header :: "py_str list" where
  "booking_header =
     map str [''TXN DATE'', ''IRCTC ORDER NO.'', ''BANK BOOKING REF.NO.'', ''BOOKING AMOUNT'',
       ''CREDITED ON'']"

definition refund_header :: "py_str list" where
  "refund_header =
     map str [''REFUND DATE'', ''IRCTC ORDER NO.'', ''BANK BOOKING REF.NO.'',
       ''BANK REFUND REF.NO.'', ''REFUND AMOUNT'', ''DEBITED ON'']"

definition booking_labels :: "py_str list" where
  "booking_labels =
     map str [''transaction_date'', ''irctc_order_no'', ''bank_booking_ref_no'',
       ''booking_amount'', ''credited_date'']"

definition refund_labels :: "py_str list" where
  "refund_labels =
     map str [''refund_date'', ''irctc_order_no'', ''bank_booking_ref_no'',
       ''bank_refund_ref_no'', ''refund_amount'', ''debited_date'']"

definition booking_file :: "cell list list \<Rightarrow> dataframe" where
  "booking_file rs = \<lparr>columns = booking_header, rows = rs\<rparr>"

definition refund_file :: "cell list list \<Rightarrow> dataframe" where
  "refund_file rs = \<lparr>columns = refund_header, rows = rs\<rparr>"

definition text_cell :: "string \<Rightarrow> cell" where
  "text_cell s = Str (str s)"

text \<open>
  The records expected in the examples, for bank code 40 of \<^verbatim>\<open>karur_vysya\<close>. The two
  dates of the examples are 1 January 2024 and 5 January 2024.
\<close>

definition booking_record :: "int \<Rightarrow> int \<Rightarrow> py_float \<Rightarrow> pyval \<Rightarrow> pyval \<Rightarrow> tx" where
  "booking_record order_no ref_no amount transaction_date credited_date =
     [(''bank_code'', PyInt 40), (''irctc_order_no'', PyInt order_no),
      (''bank_booking_ref_no'', PyInt ref_no), (''booking_amount'', PyFloat amount),
      (''transaction_date'', transaction_date), (''credited_date'', credited_date)]"

definition refund_record :: "int \<Rightarrow> int \<Rightarrow> int \<Rightarrow> py_float \<Rightarrow> pyval \<Rightarrow> pyval \<Rightarrow> tx" where
  "refund_record order_no booking_ref_no refund_ref_no amount refund_date debited_date =
     [(''bank_code'', PyInt 40), (''irctc_order_no'', PyInt order_no),
      (''bank_booking_ref_no'', PyInt booking_ref_no),
      (''bank_refund_ref_no'', PyInt refund_ref_no), (''refund_amount'', PyFloat amount),
      (''refund_date'', refund_date), (''debited_date'', debited_date)]"

definition jan_1 :: pyval where
  "jan_1 = PyTimestamp (Timestamp 1704067200000000000)"

definition jan_5 :: pyval where
  "jan_5 = PyTimestamp (Timestamp 1704412800000000000)"

section \<open>Properties of the Column Normalizer\<close>

lemma split_from_nonempty: "part \<in> set (split_from w s) \<Longrightarrow> part \<noteq> []"
  by (induction s arbitrary: w) (auto split: if_splits)

lemma concat_split_from: "concat (split_from w s) = w @ filter (\<lambda>c. \<not> isspace c) s"
  by (induction s arbitrary: w) auto

lemma dropWhile_none: "\<forall>x \<in> set xs. \<not> P x \<Longrightarrow> dropWhile P xs = xs"
  by (cases xs) auto

lemma py_strip_no_space: "\<forall>c \<in> set s. \<not> isspace c \<Longrightarrow> py_strip s = s"
  by (simp add: py_strip_def dropWhile_none)

lemma clean_column_name_filter:
  "clean_column_name s =
     filter (\<lambda>c. \<not> isspace c \<and> c \<noteq> of_char CHR ''.'' \<and> c \<noteq> of_char CHR ''_'') s"
proof -
  have keep: "filter (\<lambda>part. part \<noteq> []) (split_from [] s) = split_from [] s"
    by (rule filter_True) (auto dest: split_from_nonempty)
  let ?u = "filter (\<lambda>char. char \<notin> set [of_char CHR ''.'', of_char CHR ''_''])
              (filter (\<lambda>c. \<not> isspace c) s)"
  have "clean_column_name s = py_strip ?u"
    by (simp add: clean_column_name_def py_split_def keep concat_split_from)
  also have "py_strip ?u = ?u"
    by (rule py_strip_no_space) simp
  also have "?u = filter (\<lambda>c. \<not> isspace c \<and> c \<noteq> of_char CHR ''.''
                \<and> c \<noteq> of_char CHR ''_'') s"
    by (simp add: conj_commute conj_left_commute cong: conj_cong)
  finally show ?thesis .
qed

text \<open>
  C8. \<open>clean_column_name\<close> is a total function on strings: its result is the input
  with every whitespace code point and every \<^verbatim>\<open>.\<close> and \<^verbatim>\<open>_\<close> removed, all
  other code points kept as they are and in order (so case is preserved), and the
  empty string is mapped to the empty string.
\<close>

theorem clean_column_name_removes_exactly:
  "clean_column_name s =
     filter (\<lambda>c. \<not> isspace c \<and> c \<noteq> of_char CHR ''.'' \<and> c \<noteq> of_char CHR ''_'') s
   \<and> clean_column_name [] = []"
  by (simp add: clean_column_name_filter)

section \<open>Properties of the Bulk Loader\<close>

subsection \<open>The slices of a list\<close>

lemma py_slices_subset: "b \<in> set (py_slices n xs) \<Longrightarrow> set b \<subseteq> set xs"
  by (auto simp: py_slices_def dest!: in_set_takeD in_set_dropD)

lemma py_slices_length: "b \<in> set (py_slices n xs) \<Longrightarrow> length b \<le> n"
  by (auto simp: py_slices_def)

lemma concat_slices_take:
  "concat (map (\<lambda>k. take n (drop (k * n) xs)) [0..<m]) = take (m * n) xs"
proof (induction m)
  case 0
  then show ?case by simp
next
  case (Suc m)
  have "take (m * n) xs @ take n (drop (m * n) xs) = take (m * n + n) xs"
    by (simp add: take_add)
  with Suc show ?case by (simp add: add.commute)
qed

lemma ceil_div_covers: "0 < n \<Longrightarrow> (l::nat) \<le> ((l + n - 1) div n) * n"
proof -
  assume n: "0 < n"
  have "(l + n - 1) div n * n + (l + n - 1) mod n = l + n - 1" by simp
  moreover have "(l + n - 1) mod n < n" using n by simp
  ultimately show ?thesis by linarith
qed

lemma concat_py_slices: "0 < n \<Longrightarrow> concat (py_slices n xs) = xs"
  using ceil_div_covers[of n "length xs"] by (simp add: py_slices_def concat_slices_take)

subsection \<open>The loop over the sub-batches\<close>

lemma insert_batches_attempts:
  "insert_batches create bs table attempts = (r, table', attempts') \<Longrightarrow>
   \<exists>k \<le> length bs. attempts' = attempts @ take k bs"
proof (induction bs arbitrary: table attempts)
  case Nil
  then show ?case by (simp add: return_def)
next
  case (Cons b bs)
  show ?case
  proof (cases "create table b")
    case (Inl ex)
    with Cons.prems have "attempts' = attempts @ take 1 (b # bs)" by auto
    then show ?thesis by (intro exI[of _ 1]) simp
  next
    case (Inr t')
    with Cons.prems have "insert_batches create bs t' (attempts @ [b]) = (r, table', attempts')"
      by simp
    from Cons.IH[OF this] obtain k where
      "k \<le> length bs" "attempts' = (attempts @ [b]) @ take k bs" by blast
    then show ?thesis by (intro exI[of _ "Suc k"]) simp
  qed
qed

lemma insert_batches_failure:
  "k < length bs \<Longrightarrow> commit_all create table (take k bs) = Some tk \<Longrightarrow>
   create tk (bs ! k) = Inl ex \<Longrightarrow>
   insert_batches create bs table attempts =
     ((Inl ex, [Error_during_bulk_create ex]), tk, attempts @ take (Suc k) bs)"
proof (induction bs arbitrary: table attempts k)
  case Nil
  then show ?case by simp
next
  case (Cons b bs)
  show ?case
  proof (cases k)
    case 0
    with Cons.prems show ?thesis by simp
  next
    case (Suc j)
    with Cons.prems obtain t' where
      t': "create table b = Inr t'" "commit_all create t' (take j bs) = Some tk"
      by (auto split: sum.splits)
    from Cons.prems Suc have "j < length bs" "create tk (bs ! j) = Inl ex" by simp_all
    from Cons.IH[OF this(1) t'(2) this(2)] t'(1) Suc show ?thesis by simp
  qed
qed

subsection \<open>The check against the table\<close>

lemma set_map_filter: "set (List.map_filter f xs) = {y. \<exists>x \<in> set xs. f x = Some y}"
  by (induction xs) (auto split: option.splits)

lemma excluded_if_in_table:
  assumes "t \<in> set transactions" "order_in_table table t"
  shows "dict_get t ''irctc_order_no'' \<in> set (existing_orders table transactions)"
  using assms
  by (auto simp: existing_orders_def order_in_table_def dict_get_def set_map_filter list_ex_iff
      split: option.splits)

lemma new_transactions_not_in_table:
  assumes "t \<in> set (new_transactions_of table transactions)"
  shows "t \<in> set transactions \<and> \<not> order_in_table table t"
  using assms excluded_if_in_table[of t transactions table]
  by (auto simp: new_transactions_of_def)

lemma bulk_create_attempts:
  assumes "bulk_create_transactions create transactions table attempts = (r, table', attempts')"
  shows "\<exists>k. attempts' =
           attempts @ take k (py_slices 500 (new_transactions_of table transactions))"
proof (cases "new_transactions_of table transactions = []")
  case True
  with assms have "attempts' = attempts" by (simp add: bulk_create_transactions_def)
  then show ?thesis by (intro exI[of _ 0]) simp
next
  case False
  obtain r0 t0 a0 where
    ib: "insert_batches create (py_slices 500 (new_transactions_of table transactions))
           table attempts = (r0, t0, a0)"
    by (metis prod_cases3)
  with assms False have "attempts' = a0"
    by (auto simp: bulk_create_transactions_def split: prod.splits sum.splits)
  with insert_batches_attempts[OF ib] show ?thesis by blast
qed

lemma bulk_create_new_inserts:
  assumes "bulk_create_transactions create transactions table attempts = (r, table', attempts')"
  shows "take (length attempts) attempts' = attempts \<and>
         (\<forall>t \<in> set (new_inserts attempts attempts').
            t \<in> set transactions \<and> \<not> order_in_table table t)"
proof -
  from bulk_create_attempts[OF assms] obtain k where
    k: "attempts' = attempts @ take k (py_slices 500 (new_transactions_of table transactions))"
    by blast
  have "set (new_inserts attempts attempts') \<subseteq> set (new_transactions_of table transactions)"
  proof
    fix t assume "t \<in> set (new_inserts attempts attempts')"
    with k obtain b where
      "b \<in> set (take k (py_slices 500 (new_transactions_of table transactions)))" "t \<in> set b"
      by (auto simp: new_inserts_def)
    then show "t \<in> set (new_transactions_of table transactions)"
      using py_slices_subset by (blast dest: in_set_takeD)
  qed
  with k show ?thesis using new_transactions_not_in_table by auto
qed

text \<open>
  C2. For every call of \<open>bulk_create_booking_transactions\<close> and of
  \<open>bulk_create_refund_transactions\<close>, in every environment and every state of the
  store: the batches recorded before the call are kept, and every record the call
  passes to \<^verbatim>\<open>bulk_create\<close> is one of the candidates and its order number is not
  present in the table. So a candidate whose order number is already in the table is
  excluded before the insert step, whatever the conflict handling of the insert does.
\<close>

theorem loader_excludes_existing_orders:
  "(take (length (booking_inserts w))
      (booking_inserts (snd (bulk_create_booking_transactions E transactions w)))
      = booking_inserts w
    \<and> (\<forall>t \<in> set (new_inserts (booking_inserts w)
               (booking_inserts (snd (bulk_create_booking_transactions E transactions w)))).
          t \<in> set transactions \<and> \<not> order_in_table (booking_table w) t))
   \<and> (take (length (refund_inserts w))
      (refund_inserts (snd (bulk_create_refund_transactions E transactions w)))
      = refund_inserts w
    \<and> (\<forall>t \<in> set (new_inserts (refund_inserts w)
               (refund_inserts (snd (bulk_create_refund_transactions E transactions w)))).
          t \<in> set transactions \<and> \<not> order_in_table (refund_table w) t))"
proof -
  obtain r t a where
    b: "bulk_create_transactions (create_bookings E) transactions
          (booking_table w) (booking_inserts w) = (r, t, a)"
    by (metis prod_cases3)
  obtain r' t' a' where
    f: "bulk_create_transactions (create_refunds E) transactions
          (refund_table w) (refund_inserts w) = (r', t', a')"
    by (metis prod_cases3)
  have "booking_inserts (snd (bulk_create_booking_transactions E transactions w)) = a"
    using b by (simp add: bulk_create_booking_transactions_def split: prod.splits)
  moreover have "refund_inserts (snd (bulk_create_refund_transactions E transactions w)) = a'"
    using f by (simp add: bulk_create_refund_transactions_def split: prod.splits)
  ultimately show ?thesis
    using bulk_create_new_inserts[OF b] bulk_create_new_inserts[OF f] by simp
qed

text \<open>
  The example of the specification: order \<open>1001\<close> is in both tables; of the
  candidates \<open>1001\<close> and \<open>1002\<close> only \<open>1002\<close> is passed to \<^verbatim>\<open>bulk_create\<close>.
\<close>

theorem loader_excludes_existing_orders_witness:
  "order_in_table (booking_table stocked_world) (order_only 1001)
   \<and> new_inserts (booking_inserts stocked_world)
       (booking_inserts (snd (bulk_create_booking_transactions example_env
          [order_only 1001, order_only 1002] stocked_world))) = [order_only 1002]
   \<and> \<not> order_in_table (booking_table stocked_world) (order_only 1002)
   \<and> new_inserts (refund_inserts stocked_world)
       (refund_inserts (snd (bulk_create_refund_transactions example_env
          [order_only 1001, order_only 1002] stocked_world))) = [order_only 1002]"
proof -
  have ev: "order_in_table (booking_table stocked_world) (order_only 1001)"
    "new_inserts (booking_inserts stocked_world)
       (booking_inserts (snd (bulk_create_booking_transactions example_env
          [order_only 1001, order_only 1002] stocked_world))) = [order_only 1002]"
    "new_inserts (refund_inserts stocked_world)
       (refund_inserts (snd (bulk_create_refund_transactions example_env
          [order_only 1001, order_only 1002] stocked_world))) = [order_only 1002]"
    by (simp_all add: order_in_table_def order_only_def new_inserts_def empty_world_def
      stocked_world_def bulk_create_booking_transactions_def bulk_create_refund_transactions_def
      bulk_create_transactions_def Let_def
      new_transactions_of_def existing_orders_def dict_get_def py_slices_def example_env_def
      bigint_create_def fits_bigint_def return_def)
  from loader_excludes_existing_orders[of stocked_world example_env
      "[order_only 1001, order_only 1002]"] ev
  show ?thesis by simp
qed

subsection \<open>A sub-batch whose insert raises\<close>

lemma bulk_create_failure:
  assumes "batches = py_slices 500 (new_transactions_of table transactions)"
    and "k < length batches"
    and "commit_all create table (take k batches) = Some tk"
    and "create tk (batches ! k) = Inl ex"
  shows "bulk_create_transactions create transactions table attempts =
           ((Inl ex, [Error_during_bulk_create ex]), tk, attempts @ take (Suc k) batches)"
proof -
  from assms(1,2) have "new_transactions_of table transactions \<noteq> []"
    by (auto simp: py_slices_def)
  with insert_batches_failure[OF assms(2,3,4), of attempts] assms(1)
  show ?thesis by (simp add: bulk_create_transactions_def)
qed

text \<open>
  C7. Let \<open>batches\<close> be the sub-batches of the remaining candidates: each has at most
  500 records and together they are the remaining candidates. If the inserts of the
  sub-batches before sub-batch \<open>k\<close> succeed, leaving the table \<open>tk\<close>, and the insert
  of sub-batch \<open>k\<close> raises \<open>ex\<close>, then the loader raises \<open>ex\<close> and has logged it,
  the table is \<open>tk\<close> (what was committed stays committed), and \<^verbatim>\<open>bulk_create\<close> was
  called for the sub-batches up to \<open>k\<close> and for no later one. This holds for the
  booking loader and for the refund loader.
\<close>

theorem sub_batch_failure_keeps_earlier_commits:
  assumes "batches = py_slices 500 (new_transactions_of table transactions)"
    and "k < length batches"
    and "commit_all create table (take k batches) = Some tk"
    and "create tk (batches ! k) = Inl ex"
  shows "(create_bookings E = create \<and> booking_table w = table \<longrightarrow>
            bulk_create_booking_transactions E transactions w =
              (Inl ex, w\<lparr>booking_table := tk,
                          booking_inserts := booking_inserts w @ take (Suc k) batches,
                          logged := logged w @ [Error_during_bulk_create ex]\<rparr>))
       \<and> (create_refunds E = create \<and> refund_table w = table \<longrightarrow>
            bulk_create_refund_transactions E transactions w =
              (Inl ex, w\<lparr>refund_table := tk,
                          refund_inserts := refund_inserts w @ take (Suc k) batches,
                          logged := logged w @ [Error_during_bulk_create ex]\<rparr>))
       \<and> (\<forall>b \<in> set batches. length b \<le> 500)
       \<and> concat batches = new_transactions_of table transactions"
  using bulk_create_failure[OF assms] assms(1) py_slices_length[of _ 500] concat_py_slices[of 500]
  by (auto simp: bulk_create_booking_transactions_def bulk_create_refund_transactions_def)

lemma new_transactions_empty_table: "new_transactions_of [] transactions = transactions"
  by (simp add: new_transactions_of_def existing_orders_def)

lemma slices_501: "py_slices 500 (order_run 500 @ [oversized]) = [order_run 500, [oversized]]"
proof -
  have "[0..<2] = [0, Suc 0]" by (simp add: upt_rec)
  then show ?thesis by (simp add: py_slices_def order_run_def)
qed

lemma order_run_fits: "bigint_create table (order_run 500) = Inr (table @ order_run 500)"
proof -
  have "i < 501 \<Longrightarrow> int i < 2 ^ 63" for i :: nat by simp
  then show ?thesis
    by (auto simp: bigint_create_def order_run_def order_only_def fits_bigint_def list_all_iff)
qed

lemma oversized_fails: "bigint_create table [oversized] = Inl DatabaseError"
  by (simp add: bigint_create_def oversized_def order_only_def fits_bigint_def)

text \<open>
  501 candidates on an empty store, the last with an order number that does not fit:
  the first sub-batch of 500 is committed, the insert of the second raises, and the
  500 rows stay in the table.
\<close>

theorem sub_batch_failure_keeps_earlier_commits_witness:
  "bulk_create_booking_transactions example_env (order_run 500 @ [oversized]) empty_world =
     (Inl DatabaseError,
      empty_world\<lparr>booking_table := order_run 500,
                  booking_inserts := [order_run 500, [oversized]],
                  logged := [Error_during_bulk_create DatabaseError]\<rparr>)
   \<and> bulk_create_refund_transactions example_env (order_run 500 @ [oversized]) empty_world =
     (Inl DatabaseError,
      empty_world\<lparr>refund_table := order_run 500,
                  refund_inserts := [order_run 500, [oversized]],
                  logged := [Error_during_bulk_create DatabaseError]\<rparr>)
   \<and> length (order_run 500) = 500"
proof -
  let ?txs = "order_run 500 @ [oversized]"
  let ?batches = "[order_run 500, [oversized]]"
  have h1: "?batches = py_slices 500 (new_transactions_of [] ?txs)"
    by (simp add: new_transactions_empty_table slices_501)
  have h2: "1 < length ?batches" by simp
  have h3: "commit_all bigint_create [] (take 1 ?batches) = Some (order_run 500)"
    by (simp add: order_run_fits)
  have h4: "bigint_create (order_run 500) (?batches ! 1) = Inl DatabaseError"
    by (simp add: oversized_fails)
  from sub_batch_failure_keeps_earlier_commits[OF h1 h2 h3 h4, of example_env empty_world]
  show ?thesis
    by (simp add: example_env_def empty_world_def order_run_def)
qed

section \<open>Properties of the Row Converter and of the row loops\<close>

lemma convert_to_int_returns: "\<exists>v l. convert_to_int E val = (Inr v, l)"
  by (auto simp: convert_to_int_def convert_to_int_try_def pd_isna_def py_float_of_def
      int_of_float_def split: option.splits cell.splits sum.splits py_float.splits)

lemma convert_to_int_missing:
  "pd_isna val \<or> val = Some (Str []) \<Longrightarrow> convert_to_int E val = (Inr None, [])"
  by (auto simp: convert_to_int_def convert_to_int_try_def)

lemma convert_to_int_non_numeric:
  "float_str E s = None \<Longrightarrow> s \<noteq> [] \<Longrightarrow>
   convert_to_int E (Some (Str s)) = (Inr None, [Error_converting (Some (Str s)) ValueError])"
  by (simp add: convert_to_int_def convert_to_int_try_def pd_isna_def py_float_of_def)

lemma convert_to_int_not_finite:
  "float_str E s = Some f \<Longrightarrow> int_of_float f = Inl e \<Longrightarrow> s \<noteq> [] \<Longrightarrow>
   convert_to_int E (Some (Str s)) = (Inr None, [Error_converting (Some (Str s)) e])"
  by (auto simp: convert_to_int_def convert_to_int_try_def pd_isna_def py_float_of_def
      int_of_float_def split: py_float.splits)

text \<open>The body of each loop, once the two key cells are read and converted.\<close>

lemma booking_row_unfold:
  assumes "row_item cols row (str ''irctc_order_no'') = Inr c1"
    and "row_item cols row (str ''bank_booking_ref_no'') = Inr c2"
    and "convert_to_int E (Some c1) = (Inr k1, l1)"
    and "convert_to_int E (Some c2) = (Inr k2, l2)"
  shows "booking_row E bank cols row (bulk, seen) =
     (if k1 \<in> seen \<or> k2 \<in> seen then (Inr (bulk, seen), l1 @ l2 @ [Duplicate_booking k1])
      else case float_or_default E (row_get cols row (str ''booking_amount'')) of
             Inl e \<Rightarrow> (Inl e, l1 @ l2)
           | Inr amount \<Rightarrow>
               if truthy (opt_int k1) \<and> truthy (opt_int k2)
               then (Inr (bulk @
                       [[(''bank_code'', opt_int (map_of BANK_CODE_MAPPING bank)),
                         (''irctc_order_no'', opt_int k1),
                         (''bank_booking_ref_no'', opt_int k2),
                         (''booking_amount'', PyFloat amount),
                         (''transaction_date'',
                            pd_to_datetime E (row_get cols row (str ''transaction_date''))),
                         (''credited_date'',
                            pd_to_datetime E (row_get cols row (str ''credited_date'')))]],
                     insert k1 seen), l1 @ l2)
               else (Inr (bulk, seen), l1 @ l2))"
  using assms
  by (auto simp: booking_row_def lift_def return_def Let_def split: sum.splits)

lemma refund_row_unfold:
  assumes "row_item cols row (str ''irctc_order_no'') = Inr c1"
    and "row_item cols row (str ''bank_refund_ref_no'') = Inr c2"
    and "convert_to_int E (Some c1) = (Inr k1, l1)"
    and "convert_to_int E (Some c2) = (Inr k2, l2)"
    and "convert_to_int E (row_get cols row (str ''bank_booking_ref_no'')) = (Inr k3, l3)"
  shows "refund_row E bank cols row (bulk, seen) =
     (if k1 \<in> seen \<or> k2 \<in> seen then (Inr (bulk, seen), l1 @ l2 @ [Duplicate_refund k1])
      else case float_or_default E (row_get cols row (str ''refund_amount'')) of
             Inl e \<Rightarrow> (Inl e, l1 @ l2 @ l3)
           | Inr amount \<Rightarrow>
               if truthy (opt_int k1) \<and> truthy (opt_int k2)
               then (Inr (bulk @
                       [[(''bank_code'', opt_int (map_of BANK_CODE_MAPPING bank)),
                         (''irctc_order_no'', opt_int k1),
                         (''bank_booking_ref_no'', opt_int k3),
                         (''bank_refund_ref_no'', opt_int k2),
                         (''refund_amount'', PyFloat amount),
                         (''refund_date'',
                            pd_to_datetime E (row_get cols row (str ''refund_date''))),
                         (''debited_date'',
                            pd_to_datetime E (row_get cols row (str ''debited_date'')))]],
                     insert k1 seen), l1 @ l2 @ l3)
               else (Inr (bulk, seen), l1 @ l2 @ l3))"
  using assms
  by (auto simp: refund_row_def lift_def return_def Let_def split: sum.splits)

lemma row_item_present:
  "label \<in> set cols \<Longrightarrow> length row = length cols \<Longrightarrow> \<exists>c. row_item cols row label = Inr c"
proof -
  assume a: "label \<in> set cols" "length row = length cols"
  then have "label \<in> fst ` set (zip cols row)"
    by (metis map_fst_zip set_map)
  then have "map_of (zip cols row) label \<noteq> None"
    by (simp add: map_of_eq_None_iff)
  then show ?thesis by (auto simp: row_item_def row_get_def)
qed

lemma booking_row_no_raise:
  assumes "str ''irctc_order_no'' \<in> set cols" "str ''bank_booking_ref_no'' \<in> set cols"
    and "length row = length cols"
    and "amount_converts E cols row (str ''booking_amount'')"
  shows "\<exists>res l. booking_row E bank cols row acc = (Inr res, l)"
proof -
  obtain bulk seen where acc: "acc = (bulk, seen)" by (cases acc)
  from row_item_present[OF assms(1,3)] obtain c1 where
    c1: "row_item cols row (str ''irctc_order_no'') = Inr c1" by blast
  from row_item_present[OF assms(2,3)] obtain c2 where
    c2: "row_item cols row (str ''bank_booking_ref_no'') = Inr c2" by blast
  from convert_to_int_returns obtain k1 l1 where k1: "convert_to_int E (Some c1) = (Inr k1, l1)"
    by blast
  from convert_to_int_returns obtain k2 l2 where k2: "convert_to_int E (Some c2) = (Inr k2, l2)"
    by blast
  from assms(4) obtain a where
    a: "float_or_default E (row_get cols row (str ''booking_amount'')) = Inr a"
    by (auto simp: amount_converts_def split: sum.splits)
  show ?thesis
    unfolding acc booking_row_unfold[OF c1 c2 k1 k2] by (simp add: a)
qed

lemma refund_row_no_raise:
  assumes "str ''irctc_order_no'' \<in> set cols" "str ''bank_refund_ref_no'' \<in> set cols"
    and "length row = length cols"
    and "amount_converts E cols row (str ''refund_amount'')"
  shows "\<exists>res l. refund_row E bank cols row acc = (Inr res, l)"
proof -
  obtain bulk seen where acc: "acc = (bulk, seen)" by (cases acc)
  from row_item_present[OF assms(1,3)] obtain c1 where
    c1: "row_item cols row (str ''irctc_order_no'') = Inr c1" by blast
  from row_item_present[OF assms(2,3)] obtain c2 where
    c2: "row_item cols row (str ''bank_refund_ref_no'') = Inr c2" by blast
  from convert_to_int_returns obtain k1 l1 where k1: "convert_to_int E (Some c1) = (Inr k1, l1)"
    by blast
  from convert_to_int_returns obtain k2 l2 where k2: "convert_to_int E (Some c2) = (Inr k2, l2)"
    by blast
  from convert_to_int_returns obtain k3 l3 where
    k3: "convert_to_int E (row_get cols row (str ''bank_booking_ref_no'')) = (Inr k3, l3)"
    by blast
  from assms(4) obtain a where
    a: "float_or_default E (row_get cols row (str ''refund_amount'')) = Inr a"
    by (auto simp: amount_converts_def split: sum.splits)
  show ?thesis
    unfolding acc refund_row_unfold[OF c1 c2 k1 k2 k3] by (simp add: a)
qed

lemma for_each_no_raise:
  assumes "\<And>x acc. x \<in> set xs \<Longrightarrow> \<exists>res l. body x acc = (Inr res, l)"
  shows "\<exists>res l. for_each body xs acc = (Inr res, l)"
  using assms
proof (induction xs arbitrary: acc)
  case Nil
  then show ?case by (simp add: return_def)
next
  case (Cons x xs)
  from Cons.prems[of x acc] obtain res l where b: "body x acc = (Inr res, l)" by auto
  from Cons.IH[of res] Cons.prems obtain res' l' where "for_each body xs res = (Inr res', l')"
    by auto
  with b show ?case by simp
qed

lemma truthy_opt_int: "truthy (opt_int k) \<longleftrightarrow> k \<noteq> None \<and> k \<noteq> Some 0"
  by (cases k) (auto simp: truthy_def opt_int_def)

lemma booking_row_step:
  assumes "booking_row E bank cols row (bulk, seen) = (Inr (bulk', seen'), l)"
  shows "(bulk' = bulk \<and> seen' = seen) \<or>
         (\<exists>t k. bulk' = bulk @ [t] \<and> seen' = insert (Some k) seen \<and>
                dict_get t ''irctc_order_no'' = PyInt k)"
proof (cases "row_item cols row (str ''irctc_order_no'')")
  case (Inl e)
  with assms(1) show ?thesis by (simp add: booking_row_def lift_def)
next
  case c1: (Inr c1)
  from convert_to_int_returns obtain k1 l1 where k1: "convert_to_int E (Some c1) = (Inr k1, l1)"
    by blast
  show ?thesis
  proof (cases "row_item cols row (str ''bank_booking_ref_no'')")
    case (Inl e)
    with assms(1) c1 k1 show ?thesis by (simp add: booking_row_def lift_def)
  next
    case c2: (Inr c2)
    from convert_to_int_returns obtain k2 l2 where
      k2: "convert_to_int E (Some c2) = (Inr k2, l2)" by blast
    show ?thesis
    proof (cases "truthy (opt_int k1) \<and> truthy (opt_int k2) \<and> k1 \<notin> seen \<and> k2 \<notin> seen")
      case True
      then obtain k where "k1 = Some k" by (auto simp: truthy_opt_int)
      with True assms show ?thesis
        unfolding booking_row_unfold[OF c1 c2 k1 k2]
        by (auto simp: dict_get_def opt_int_def split: sum.splits)
    next
      case False
      with assms show ?thesis
        unfolding booking_row_unfold[OF c1 c2 k1 k2]
        by (auto split: if_splits sum.splits)
    qed
  qed
qed

lemma refund_row_step:
  assumes "refund_row E bank cols row (bulk, seen) = (Inr (bulk', seen'), l)"
  shows "(bulk' = bulk \<and> seen' = seen) \<or>
         (\<exists>t k. bulk' = bulk @ [t] \<and> seen' = insert (Some k) seen \<and>
                dict_get t ''irctc_order_no'' = PyInt k)"
proof (cases "row_item cols row (str ''irctc_order_no'')")
  case (Inl e)
  with assms(1) show ?thesis by (simp add: refund_row_def lift_def)
next
  case c1: (Inr c1)
  from convert_to_int_returns obtain k1 l1 where k1: "convert_to_int E (Some c1) = (Inr k1, l1)"
    by blast
  show ?thesis
  proof (cases "row_item cols row (str ''bank_refund_ref_no'')")
    case (Inl e)
    with assms(1) c1 k1 show ?thesis by (simp add: refund_row_def lift_def)
  next
    case c2: (Inr c2)
    from convert_to_int_returns obtain k2 l2 where
      k2: "convert_to_int E (Some c2) = (Inr k2, l2)" by blast
    from convert_to_int_returns obtain k3 l3 where
      k3: "convert_to_int E (row_get cols row (str ''bank_booking_ref_no'')) = (Inr k3, l3)"
      by blast
    show ?thesis
    proof (cases "truthy (opt_int k1) \<and> truthy (opt_int k2) \<and> k1 \<notin> seen \<and> k2 \<notin> seen")
      case True
      then obtain k where "k1 = Some k" by (auto simp: truthy_opt_int)
      with True assms show ?thesis
        unfolding refund_row_unfold[OF c1 c2 k1 k2 k3]
        by (auto simp: dict_get_def opt_int_def split: sum.splits)
    next
      case False
      with assms show ?thesis
        unfolding refund_row_unfold[OF c1 c2 k1 k2 k3]
        by (auto split: if_splits sum.splits)
    qed
  qed
qed

lemma step_seen:
  assumes "(bulk' = bulk \<and> seen' = seen) \<or>
         (\<exists>t k. bulk' = bulk @ [t] \<and> seen' = insert (Some k) seen \<and>
                dict_get t ''irctc_order_no'' = PyInt k)"
    and "seen = order_key ` set bulk"
  shows "seen' = order_key ` set bulk'"
  using assms by (auto simp: order_key_def)

lemma for_each_seen:
  assumes step: "\<And>x bulk seen bulk' seen' l.
      body x (bulk, seen) = (Inr (bulk', seen'), l) \<Longrightarrow> seen = order_key ` set bulk \<Longrightarrow>
      seen' = order_key ` set bulk'"
    and "for_each body xs (bulk, seen) = (Inr (bulk', seen'), l)"
    and "seen = order_key ` set bulk"
  shows "seen' = order_key ` set bulk'"
  using assms(2,3)
proof (induction xs arbitrary: bulk seen l)
  case Nil
  then show ?case by (auto simp: return_def)
next
  case (Cons x xs)
  obtain r0 l0 where b: "body x (bulk, seen) = (r0, l0)" by (cases "body x (bulk, seen)")
  show ?case
  proof (cases r0)
    case (Inl e)
    with Cons.prems b show ?thesis by simp
  next
    case (Inr acc)
    obtain b1 s1 where acc: "acc = (b1, s1)" by (cases acc)
    from step[OF b[unfolded Inr acc] Cons.prems(2)] have s1: "s1 = order_key ` set b1" .
    obtain r2 l2 where f: "for_each body xs (b1, s1) = (r2, l2)"
      by (cases "for_each body xs (b1, s1)")
    with Cons.prems(1) b Inr acc have "r2 = Inr (bulk', seen')" by simp
    with f Cons.IH[OF _ s1] show ?thesis by simp
  qed
qed

subsection \<open>The records of a chunk and its accepted rows\<close>





subsection \<open>What the body of a loop logs\<close>

lemma booking_row_log:
  assumes "booking_row E bank cols row (bulk, seen) = (Inr (bulk', seen'), l)"
  shows "l = snd (convert_to_int E (row_get cols row (str ''irctc_order_no''))) @
             snd (convert_to_int E (row_get cols row (str ''bank_booking_ref_no''))) @
             (if converted_key E cols (str ''irctc_order_no'') row \<in> seen \<or>
                 converted_key E cols (str ''bank_booking_ref_no'') row \<in> seen
              then [Duplicate_booking (converted_key E cols (str ''irctc_order_no'') row)]
              else [])
       \<and> (bulk' = bulk \<or>
         (\<exists>t. bulk' = bulk @ [t] \<and>
            (date_fails E (row_get cols row (str ''transaction_date'')) \<longrightarrow>
               dict_get t ''transaction_date'' = NaT) \<and>
            (date_fails E (row_get cols row (str ''credited_date'')) \<longrightarrow>
               dict_get t ''credited_date'' = NaT)))"
proof -
  have nat: "date_fails E v \<Longrightarrow> pd_to_datetime E v = NaT" for v
    by (auto simp: date_fails_def pd_to_datetime_def split: option.splits cell.splits)
  show ?thesis
  proof (cases "row_item cols row (str ''irctc_order_no'')")
    case (Inl e)
    with assms(1) show ?thesis by (simp add: booking_row_def lift_def)
  next
    case c1: (Inr c1)
    from convert_to_int_returns obtain k1 l1 where
      k1: "convert_to_int E (Some c1) = (Inr k1, l1)" by blast
    show ?thesis
    proof (cases "row_item cols row (str ''bank_booking_ref_no'')")
      case (Inl e)
      with assms(1) c1 k1 show ?thesis by (simp add: booking_row_def lift_def)
    next
      case c2: (Inr c2)
      from convert_to_int_returns obtain k2 l2 where
        k2: "convert_to_int E (Some c2) = (Inr k2, l2)" by blast
      have g: "row_get cols row (str ''irctc_order_no'') = Some c1"
        "row_get cols row (str ''bank_booking_ref_no'') = Some c2"
        using c1 c2 by (auto simp: row_item_def split: option.splits)
      have ck: "converted_key E cols (str ''irctc_order_no'') row = k1"
        "converted_key E cols (str ''bank_booking_ref_no'') row = k2"
        using g k1 k2 by (auto simp: converted_key_def)
      show ?thesis
        using assms nat unfolding ck g booking_row_unfold[OF c1 c2 k1 k2]
        by (auto simp: k1 k2 dict_get_def split: if_splits sum.splits)
    qed
  qed
qed

lemma refund_row_log:
  assumes "refund_row E bank cols row (bulk, seen) = (Inr (bulk', seen'), l)"
  shows "l = snd (convert_to_int E (row_get cols row (str ''irctc_order_no''))) @
             snd (convert_to_int E (row_get cols row (str ''bank_refund_ref_no''))) @
             (if converted_key E cols (str ''irctc_order_no'') row \<in> seen \<or>
                 converted_key E cols (str ''bank_refund_ref_no'') row \<in> seen
              then [Duplicate_refund (converted_key E cols (str ''irctc_order_no'') row)]
              else snd (convert_to_int E (row_get cols row (str ''bank_booking_ref_no''))))
       \<and> (bulk' = bulk \<or>
         (\<exists>t. bulk' = bulk @ [t] \<and>
            (date_fails E (row_get cols row (str ''refund_date'')) \<longrightarrow>
               dict_get t ''refund_date'' = NaT) \<and>
            (date_fails E (row_get cols row (str ''debited_date'')) \<longrightarrow>
               dict_get t ''debited_date'' = NaT)))"
proof -
  have nat: "date_fails E v \<Longrightarrow> pd_to_datetime E v = NaT" for v
    by (auto simp: date_fails_def pd_to_datetime_def split: option.splits cell.splits)
  show ?thesis
  proof (cases "row_item cols row (str ''irctc_order_no'')")
    case (Inl e)
    with assms(1) show ?thesis by (simp add: refund_row_def lift_def)
  next
    case c1: (Inr c1)
    from convert_to_int_returns obtain k1 l1 where
      k1: "convert_to_int E (Some c1) = (Inr k1, l1)" by blast
    show ?thesis
    proof (cases "row_item cols row (str ''bank_refund_ref_no'')")
      case (Inl e)
      with assms(1) c1 k1 show ?thesis by (simp add: refund_row_def lift_def)
    next
      case c2: (Inr c2)
      from convert_to_int_returns obtain k2 l2 where
        k2: "convert_to_int E (Some c2) = (Inr k2, l2)" by blast
      from convert_to_int_returns obtain k3 l3 where
        k3: "convert_to_int E (row_get cols row (str ''bank_booking_ref_no'')) = (Inr k3, l3)"
        by blast
      have g: "row_get cols row (str ''irctc_order_no'') = Some c1"
        "row_get cols row (str ''bank_refund_ref_no'') = Some c2"
        using c1 c2 by (auto simp: row_item_def split: option.splits)
      have ck: "converted_key E cols (str ''irctc_order_no'') row = k1"
        "converted_key E cols (str ''bank_refund_ref_no'') row = k2"
        using g k1 k2 by (auto simp: converted_key_def)
      show ?thesis
        using assms nat unfolding ck g refund_row_unfold[OF c1 c2 k1 k2 k3]
        by (auto simp: k1 k2 k3 dict_get_def split: if_splits sum.splits)
    qed
  qed
qed

section \<open>Evaluation of the examples\<close>

lemma str_eq_iff [simp]: "str a = str b \<longleftrightarrow> a = b"
  by (simp add: str_def inj_of_char)

lemma str_Nil [simp]: "str a = [] \<longleftrightarrow> a = []"
  by (simp add: str_def)

lemma cleaned_booking_header:
  "map clean_column_name booking_header =
     map str [''TXNDATE'', ''IRCTCORDERNO'', ''BANKBOOKINGREFNO'', ''BOOKINGAMOUNT'', ''CREDITEDON'']"
  by (simp add: booking_header_def clean_column_name_filter str_def isspace_def)

lemma cleaned_refund_header:
  "map clean_column_name refund_header =
     map str [''REFUNDDATE'', ''IRCTCORDERNO'', ''BANKBOOKINGREFNO'', ''BANKREFUNDREFNO'',
       ''REFUNDAMOUNT'', ''DEBITEDON'']"
  by (simp add: refund_header_def clean_column_name_filter str_def isspace_def)

lemma karur_rename_ok:
  "map_of BANK_MAPPINGS (str ''karur_vysya'') = Some m \<Longrightarrow> \<exists>d. rename_dict m cols = Inr d"
  by (auto simp add: rename_dict_def BANK_MAPPINGS_def Let_def)

lemma karur_rename_booking:
  assumes "rename_dict m (map clean_column_name booking_header) = Inr d"
    and "map_of BANK_MAPPINGS (str ''karur_vysya'') = Some m"
  shows "rename_columns d (map clean_column_name booking_header) = booking_labels"
  using assms
  by (auto simp add: cleaned_booking_header rename_dict_def rename_columns_def BANK_MAPPINGS_def
      Let_def booking_labels_def)

lemma karur_rename_refund:
  assumes "rename_dict m (map clean_column_name refund_header) = Inr d"
    and "map_of BANK_MAPPINGS (str ''karur_vysya'') = Some m"
  shows "rename_columns d (map clean_column_name refund_header) = refund_labels"
  using assms
  by (auto simp add: cleaned_refund_header rename_dict_def rename_columns_def BANK_MAPPINGS_def
      Let_def refund_labels_def)

text \<open>
  What the assembly of a chunk with the booking header, or with the refund header,
  comes to, in every environment.
\<close>

lemma assemble_booking_file:
  "assemble E (booking_file rs) (str ''karur_vysya'') (str ''booking'') =
     (if filter (not_dropped booking_labels) rs = [] then (Inr ([], []), [No_valid_rows])
      else and_then (for_each (booking_row E (str ''karur_vysya'') booking_labels)
                      (filter (not_dropped booking_labels) rs) ([], {}))
             (\<lambda>(bulk, seen). return (bulk, [])))"
proof -
  obtain m where m: "map_of BANK_MAPPINGS (str ''karur_vysya'') = Some m"
    by (simp add: BANK_MAPPINGS_def)
  from karur_rename_ok[OF m] obtain d where
    d: "rename_dict m (map clean_column_name booking_header) = Inr d" by blast
  note r = karur_rename_booking[OF d m]
  have dn: "dropna [str ''irctc_order_no'', str ''bank_booking_ref_no'']
              \<lparr>columns = booking_labels, rows = rs\<rparr> =
            Inr \<lparr>columns = booking_labels, rows = filter (not_dropped booking_labels) rs\<rparr>"
    unfolding dropna_def not_dropped_def booking_labels_def by simp
  show ?thesis
    by (simp add: assemble_def booking_file_def m d r dn lift_def Let_def frame_empty_def)
       (simp add: booking_labels_def return_def split: prod.splits)
qed

lemma assemble_refund_file:
  "assemble E (refund_file rs) (str ''karur_vysya'') (str ''refund'') =
     (if filter (not_dropped refund_labels) rs = [] then (Inr ([], []), [No_valid_rows])
      else and_then (for_each (refund_row E (str ''karur_vysya'') refund_labels)
                      (filter (not_dropped refund_labels) rs) ([], {}))
             (\<lambda>(bulk, seen). return ([], bulk)))"
proof -
  obtain m where m: "map_of BANK_MAPPINGS (str ''karur_vysya'') = Some m"
    by (simp add: BANK_MAPPINGS_def)
  from karur_rename_ok[OF m] obtain d where
    d: "rename_dict m (map clean_column_name refund_header) = Inr d" by blast
  note r = karur_rename_refund[OF d m]
  have dn: "dropna [str ''irctc_order_no'', str ''bank_booking_ref_no'']
              \<lparr>columns = refund_labels, rows = rs\<rparr> =
            Inr \<lparr>columns = refund_labels, rows = filter (not_dropped refund_labels) rs\<rparr>"
    unfolding dropna_def not_dropped_def refund_labels_def by simp
  show ?thesis
    by (simp add: assemble_def refund_file_def m d r dn lift_def Let_def frame_empty_def)
       (simp add: refund_labels_def return_def split: prod.splits)
qed

lemma booking_cells:
  "row_get booking_labels [d, k1, k2, a, c] (str ''transaction_date'') = Some d"
  "row_get booking_labels [d, k1, k2, a, c] (str ''irctc_order_no'') = Some k1"
  "row_get booking_labels [d, k1, k2, a, c] (str ''bank_booking_ref_no'') = Some k2"
  "row_get booking_labels [d, k1, k2, a, c] (str ''booking_amount'') = Some a"
  "row_get booking_labels [d, k1, k2, a, c] (str ''credited_date'') = Some c"
  by (simp_all add: row_get_def booking_labels_def)

lemma refund_cells:
  "row_get refund_labels [d, k1, k3, k2, a, c] (str ''refund_date'') = Some d"
  "row_get refund_labels [d, k1, k3, k2, a, c] (str ''irctc_order_no'') = Some k1"
  "row_get refund_labels [d, k1, k3, k2, a, c] (str ''bank_booking_ref_no'') = Some k3"
  "row_get refund_labels [d, k1, k3, k2, a, c] (str ''bank_refund_ref_no'') = Some k2"
  "row_get refund_labels [d, k1, k3, k2, a, c] (str ''refund_amount'') = Some a"
  "row_get refund_labels [d, k1, k3, k2, a, c] (str ''debited_date'') = Some c"
  by (simp_all add: row_get_def refund_labels_def)

lemma decimal_examples:
  "decimal_float (str ''1001'') = Some (Finite 1001)"
  "decimal_float (str ''1002'') = Some (Finite 1002)"
  "decimal_float (str ''2002'') = Some (Finite 2002)"
  "decimal_float (str ''5001'') = Some (Finite 5001)"
  "decimal_float (str ''5002'') = Some (Finite 5002)"
  "decimal_float (str ''7001'') = Some (Finite 7001)"
  "decimal_float (str ''250'') = Some (Finite 250)"
  "decimal_float (str ''abc'') = None"
  by (simp_all add: str_def decimal_float_def py_strip_def isspace_def split_sign_def to_lower_def
        decimal_value_def decimal_exponent_def is_digit_def Let_def)

lemma date_examples:
  "iso_date (str ''2024-01-01'') = Some (Timestamp 1704067200000000000)"
  "iso_date (str ''2024-01-05'') = Some (Timestamp 1704412800000000000)"
  "iso_date (str ''not a date'') = None"
  by (simp_all add: str_def is_digit_def civil_timestamp_def days_in_month_def
        days_from_civil_def Let_def)

lemma convert_examples:
  "convert_to_int example_env (Some (text_cell ''1001'')) = (Inr (Some 1001), [])"
  "convert_to_int example_env (Some (text_cell ''1002'')) = (Inr (Some 1002), [])"
  "convert_to_int example_env (Some (text_cell ''2002'')) = (Inr (Some 2002), [])"
  "convert_to_int example_env (Some (text_cell ''5001'')) = (Inr (Some 5001), [])"
  "convert_to_int example_env (Some (text_cell ''5002'')) = (Inr (Some 5002), [])"
  "convert_to_int example_env (Some (text_cell ''7001'')) = (Inr (Some 7001), [])"
  "convert_to_int example_env (Some (text_cell ''abc'')) =
     (Inr None, [Error_converting (Some (text_cell ''abc'')) ValueError])"
  by (simp_all add: text_cell_def convert_to_int_def convert_to_int_try_def pd_isna_def py_float_of_def
        example_env_def decimal_examples int_of_float_def)

lemma amount_examples:
  "float_or_default example_env (Some (text_cell ''250'')) = Inr (Finite 250)"
  "float_or_default example_env (Some (text_cell ''abc'')) = Inl ValueError"
  "float_or_default example_env (Some NaN) = Inr FNan"
  by (simp_all add: text_cell_def float_or_default_def py_float_of_def example_env_def decimal_examples)

lemma datetime_examples:
  "pd_to_datetime example_env (Some (text_cell ''2024-01-01'')) = jan_1"
  "pd_to_datetime example_env (Some (text_cell ''2024-01-05'')) = jan_5"
  "pd_to_datetime example_env (Some (text_cell ''not a date'')) = NaT"
  "pd_to_datetime example_env (Some NaN) = NaT"
  by (simp_all add: text_cell_def pd_to_datetime_def example_env_def date_examples jan_1_def jan_5_def)

lemma not_dropped_examples [simp]:
  "not_dropped booking_labels [d, text_cell k1, text_cell k2, a, c]"
  "not_dropped refund_labels [d, text_cell j1, text_cell j3, j2, b, c]"
  by (simp_all add: not_dropped_def booking_cells refund_cells text_cell_def)

lemmas row_eval =
  booking_row_def refund_row_def row_item_def booking_cells refund_cells lift_def return_def
  convert_examples amount_examples datetime_examples opt_int_def truthy_def
  BANK_CODE_MAPPING_def booking_record_def refund_record_def

lemma rows_booking_file: "rows (booking_file rs) = rs"
  by (simp add: booking_file_def)



lemma distinct_labels: "distinct booking_labels" "distinct refund_labels"
  by (simp_all add: booking_labels_def refund_labels_def)

section \<open>Claims about the Dedup and Batch Assembler\<close>

lemma booking_loop_seen:
  assumes "for_each (booking_row E bank cols) rs ([], {}) = (Inr (bulk, seen), l)"
  shows "seen = order_key ` set bulk"
proof (rule for_each_seen[OF _ assms])
  show "{} = order_key ` set []" by simp
next
  fix x b0 s0 b1 s1 l0
  assume "booking_row E bank cols x (b0, s0) = (Inr (b1, s1), l0)" "s0 = order_key ` set b0"
  then show "s1 = order_key ` set b1" by (rule step_seen[OF booking_row_step])
qed

lemma refund_loop_seen:
  assumes "for_each (refund_row E bank cols) rs ([], {}) = (Inr (bulk, seen), l)"
  shows "seen = order_key ` set bulk"
proof (rule for_each_seen[OF _ assms])
  show "{} = order_key ` set []" by simp
next
  fix x b0 s0 b1 s1 l0
  assume "refund_row E bank cols x (b0, s0) = (Inr (b1, s1), l0)" "s0 = order_key ` set b0"
  then show "s1 = order_key ` set b1" by (rule step_seen[OF refund_row_step])
qed

text \<open>
  What the check does achieve: the order numbers of the records accepted in a chunk are
  pairwise different, in both loops.
\<close>

lemma for_each_invariant:
  assumes "\<And>x s s' l. body x s = (Inr s', l) \<Longrightarrow> P s \<Longrightarrow> P s'"
    and "for_each body xs s = (Inr s', l)"
    and "P s"
  shows "P s'"
  using assms(2,3)
proof (induction xs arbitrary: s l)
  case Nil
  then show ?case by (auto simp: return_def)
next
  case (Cons x xs)
  obtain r0 l0 where b: "body x s = (r0, l0)" by (cases "body x s")
  show ?case
  proof (cases r0)
    case (Inl e)
    with Cons.prems b show ?thesis by simp
  next
    case (Inr s1)
    from assms(1)[OF b[unfolded Inr] Cons.prems(2)] have p1: "P s1" .
    obtain r2 l2 where f: "for_each body xs s1 = (r2, l2)" by (cases "for_each body xs s1")
    with Cons.prems(1) b Inr have "r2 = Inr s'" by simp
    with f Cons.IH[OF _ p1] show ?thesis by simp
  qed
qed

lemma booking_row_fresh:
  assumes "booking_row E bank cols row (bulk, seen) = (Inr (bulk', seen'), l)"
  shows "(bulk' = bulk \<and> seen' = seen) \<or>
         (\<exists>t k. bulk' = bulk @ [t] \<and> seen' = insert (Some k) seen \<and> Some k \<notin> seen \<and>
                order_key t = Some k)"
proof (cases "row_item cols row (str ''irctc_order_no'')")
  case (Inl e)
  with assms(1) show ?thesis by (simp add: booking_row_def lift_def)
next
  case c1: (Inr c1)
  from convert_to_int_returns obtain k1 l1 where k1: "convert_to_int E (Some c1) = (Inr k1, l1)"
    by blast
  show ?thesis
  proof (cases "row_item cols row (str ''bank_booking_ref_no'')")
    case (Inl e)
    with assms(1) c1 k1 show ?thesis by (simp add: booking_row_def lift_def)
  next
    case c2: (Inr c2)
    from convert_to_int_returns obtain k2 l2 where
      k2: "convert_to_int E (Some c2) = (Inr k2, l2)" by blast
    show ?thesis
    proof (cases "truthy (opt_int k1) \<and> truthy (opt_int k2) \<and> k1 \<notin> seen \<and> k2 \<notin> seen")
      case True
      then obtain k where "k1 = Some k" by (auto simp: truthy_opt_int)
      with True assms show ?thesis
        unfolding booking_row_unfold[OF c1 c2 k1 k2]
        by (auto simp: order_key_def dict_get_def opt_int_def split: sum.splits)
    next
      case False
      with assms show ?thesis
        unfolding booking_row_unfold[OF c1 c2 k1 k2]
        by (auto split: if_splits sum.splits)
    qed
  qed
qed

lemma refund_row_fresh:
  assumes "refund_row E bank cols row (bulk, seen) = (Inr (bulk', seen'), l)"
  shows "(bulk' = bulk \<and> seen' = seen) \<or>
         (\<exists>t k. bulk' = bulk @ [t] \<and> seen' = insert (Some k) seen \<and> Some k \<notin> seen \<and>
                order_key t = Some k)"
proof (cases "row_item cols row (str ''irctc_order_no'')")
  case (Inl e)
  with assms(1) show ?thesis by (simp add: refund_row_def lift_def)
next
  case c1: (Inr c1)
  from convert_to_int_returns obtain k1 l1 where k1: "convert_to_int E (Some c1) = (Inr k1, l1)"
    by blast
  show ?thesis
  proof (cases "row_item cols row (str ''bank_refund_ref_no'')")
    case (Inl e)
    with assms(1) c1 k1 show ?thesis by (simp add: refund_row_def lift_def)
  next
    case c2: (Inr c2)
    from convert_to_int_returns obtain k2 l2 where
      k2: "convert_to_int E (Some c2) = (Inr k2, l2)" by blast
    from convert_to_int_returns obtain k3 l3 where
      k3: "convert_to_int E (row_get cols row (str ''bank_booking_ref_no'')) = (Inr k3, l3)"
      by blast
    show ?thesis
    proof (cases "truthy (opt_int k1) \<and> truthy (opt_int k2) \<and> k1 \<notin> seen \<and> k2 \<notin> seen")
      case True
      then obtain k where "k1 = Some k" by (auto simp: truthy_opt_int)
      with True assms show ?thesis
        unfolding refund_row_unfold[OF c1 c2 k1 k2 k3]
        by (auto simp: order_key_def dict_get_def opt_int_def split: sum.splits)
    next
      case False
      with assms show ?thesis
        unfolding refund_row_unfold[OF c1 c2 k1 k2 k3]
        by (auto split: if_splits sum.splits)
    qed
  qed
qed

lemma fresh_keeps_distinct:
  assumes "(bulk' = bulk \<and> seen' = seen) \<or>
         (\<exists>t k. bulk' = bulk @ [t] \<and> seen' = insert (Some k) seen \<and> Some k \<notin> seen \<and>
                order_key t = Some k)"
    and "seen = order_key ` set bulk \<and> distinct (map order_key bulk)"
  shows "seen' = order_key ` set bulk' \<and> distinct (map order_key bulk')"
  using assms by auto

lemma accepted_order_numbers_distinct:
  "for_each (booking_row E bank cols) rs ([], {}) = (Inr (bulk, seen), l) \<Longrightarrow>
     distinct (map order_key bulk)"
  "for_each (refund_row E bank cols) rs ([], {}) = (Inr (bulk, seen), l) \<Longrightarrow>
     distinct (map order_key bulk)"
proof -
  let ?P = "\<lambda>s. snd s = order_key ` set (fst s) \<and> distinct (map order_key (fst s))"
  have b: "?P s'" if "booking_row E bank cols x s = (Inr s', l0)" "?P s" for x s s' l0
  proof -
    obtain b0 s0 where s: "s = (b0, s0)" by (cases s)
    obtain b1 s1 where s': "s' = (b1, s1)" by (cases s')
    from that(1) have "booking_row E bank cols x (b0, s0) = (Inr (b1, s1), l0)"
      by (simp add: s s')
    from fresh_keeps_distinct[OF booking_row_fresh[OF this]] that(2) show ?thesis
      by (simp add: s s')
  qed
  have r: "?P s'" if "refund_row E bank cols x s = (Inr s', l0)" "?P s" for x s s' l0
  proof -
    obtain b0 s0 where s: "s = (b0, s0)" by (cases s)
    obtain b1 s1 where s': "s' = (b1, s1)" by (cases s')
    from that(1) have "refund_row E bank cols x (b0, s0) = (Inr (b1, s1), l0)"
      by (simp add: s s')
    from fresh_keeps_distinct[OF refund_row_fresh[OF this]] that(2) show ?thesis
      by (simp add: s s')
  qed
  show "distinct (map order_key bulk)"
    if "for_each (booking_row E bank cols) rs ([], {}) = (Inr (bulk, seen), l)"
    using for_each_invariant[where P = ?P and body = "booking_row E bank cols", OF b that] by simp
  show "distinct (map order_key bulk)"
    if "for_each (refund_row E bank cols) rs ([], {}) = (Inr (bulk, seen), l)"
    using for_each_invariant[where P = ?P and body = "refund_row E bank cols", OF r that] by simp
qed

text \<open>
  C1. The claim: within one chunk no two accepted booking records share an order
  number or a bank booking reference. The code keeps the order numbers of the accepted
  records only, and tests the reference of a row against them: order numbers are not
  repeated (\<open>accepted_order_numbers_distinct\<close>), references can be. Evaluated on a
  chunk of two rows with the orders \<open>1001\<close> and \<open>1002\<close> and the same reference
  \<open>5001\<close>: both rows are accepted, and nothing is logged.
\<close>

theorem shared_booking_reference_both_accepted:
  "assemble example_env
     (booking_file
        [[text_cell ''2024-01-01'', text_cell ''1001'', text_cell ''5001'', text_cell ''250'',
          text_cell ''2024-01-05''],
         [text_cell ''2024-01-01'', text_cell ''1002'', text_cell ''5001'', text_cell ''250'',
          text_cell ''2024-01-05'']])
     (str ''karur_vysya'') (str ''booking'') =
   (Inr ([booking_record 1001 5001 (Finite 250) jan_1 jan_5,
          booking_record 1002 5001 (Finite 250) jan_1 jan_5], []), [])"
  by (simp add: assemble_booking_file) (simp add: row_eval)

text \<open>
  C4. The claim: a row whose amount cell is missing gives a record with amount
  \<open>0.0\<close>. The label of the amount is a column of every chunk the loops run on, so
  \<^verbatim>\<open>row.get(label, 0.0)\<close> returns the missing cell and not the default, and
  \<^verbatim>\<open>float\<close> of it is not-a-number. Evaluated on a booking row and on a refund row
  with a missing amount cell.
\<close>

theorem missing_amount_gives_nan:
  "assemble example_env
     (booking_file
        [[text_cell ''2024-01-01'', text_cell ''1001'', text_cell ''5001'', NaN,
          text_cell ''2024-01-05'']])
     (str ''karur_vysya'') (str ''booking'') =
   (Inr ([booking_record 1001 5001 FNan jan_1 jan_5], []), [])
   \<and> assemble example_env
     (refund_file
        [[text_cell ''2024-01-01'', text_cell ''1001'', text_cell ''5001'', text_cell ''7001'', NaN,
          text_cell ''2024-01-05'']])
     (str ''karur_vysya'') (str ''refund'') =
   (Inr ([], [refund_record 1001 5001 7001 FNan jan_1 jan_5]), [])
   \<and> dict_get (booking_record 1001 5001 FNan jan_1 jan_5) ''booking_amount'' = PyFloat FNan
   \<and> dict_get (refund_record 1001 5001 7001 FNan jan_1 jan_5) ''refund_amount'' = PyFloat FNan
   \<and> FNan \<noteq> Finite 0"
proof -
  have "assemble example_env
     (booking_file
        [[text_cell ''2024-01-01'', text_cell ''1001'', text_cell ''5001'', NaN,
          text_cell ''2024-01-05'']])
     (str ''karur_vysya'') (str ''booking'') =
   (Inr ([booking_record 1001 5001 FNan jan_1 jan_5], []), [])"
    by (simp add: assemble_booking_file) (simp add: row_eval)
  moreover have "assemble example_env
     (refund_file
        [[text_cell ''2024-01-01'', text_cell ''1001'', text_cell ''5001'', text_cell ''7001'', NaN,
          text_cell ''2024-01-05'']])
     (str ''karur_vysya'') (str ''refund'') =
   (Inr ([], [refund_record 1001 5001 7001 FNan jan_1 jan_5]), [])"
    by (simp add: assemble_refund_file) (simp add: row_eval)
  ultimately show ?thesis
    by (simp add: dict_get_def booking_record_def refund_record_def)
qed

text \<open>
  C10. In each loop the set of seen values is the set of the order numbers of the
  records accepted so far, and both keys of a row are tested against it. So there are
  chunks of two rows with four different key values, but for the reference of the second
  row, which is the order number of the first: the second row is dropped as a
  duplicate, though the accepted row shares none of its keys. This is so for bookings
  and for refunds.
\<close>

theorem reference_tested_against_order_numbers:
  "(for_each (booking_row E bank cols) rs ([], {}) = (Inr (bulk, seen), l)
      \<longrightarrow> seen = order_key ` set bulk)
   \<and> (for_each (refund_row E bank cols) rs ([], {}) = (Inr (bulk, seen), l)
      \<longrightarrow> seen = order_key ` set bulk)
   \<and> assemble example_env
     (booking_file
        [[text_cell ''2024-01-01'', text_cell ''1001'', text_cell ''5001'', text_cell ''250'',
          text_cell ''2024-01-05''],
         [text_cell ''2024-01-01'', text_cell ''1002'', text_cell ''1001'', text_cell ''250'',
          text_cell ''2024-01-05'']])
     (str ''karur_vysya'') (str ''booking'') =
   (Inr ([booking_record 1001 5001 (Finite 250) jan_1 jan_5], []),
    [Duplicate_booking (Some 1002)])
   \<and> assemble example_env
     (refund_file
        [[text_cell ''2024-01-01'', text_cell ''1001'', text_cell ''5001'', text_cell ''7001'',
          text_cell ''250'', text_cell ''2024-01-05''],
         [text_cell ''2024-01-01'', text_cell ''1002'', text_cell ''5002'', text_cell ''1001'',
          text_cell ''250'', text_cell ''2024-01-05'']])
     (str ''karur_vysya'') (str ''refund'') =
   (Inr ([], [refund_record 1001 5001 7001 (Finite 250) jan_1 jan_5]),
    [Duplicate_refund (Some 1002)])"
proof -
  have b: "seen = order_key ` set bulk"
    if "for_each (booking_row E bank cols) rs ([], {}) = (Inr (bulk, seen), l)"
    using that by (rule booking_loop_seen)
  have r: "seen = order_key ` set bulk"
    if "for_each (refund_row E bank cols) rs ([], {}) = (Inr (bulk, seen), l)"
    using that by (rule refund_loop_seen)
  have eb: "assemble example_env
     (booking_file
        [[text_cell ''2024-01-01'', text_cell ''1001'', text_cell ''5001'', text_cell ''250'',
          text_cell ''2024-01-05''],
         [text_cell ''2024-01-01'', text_cell ''1002'', text_cell ''1001'', text_cell ''250'',
          text_cell ''2024-01-05'']])
     (str ''karur_vysya'') (str ''booking'') =
   (Inr ([booking_record 1001 5001 (Finite 250) jan_1 jan_5], []),
    [Duplicate_booking (Some 1002)])"
    by (simp add: assemble_booking_file) (simp add: row_eval)
  have er: "assemble example_env
     (refund_file
        [[text_cell ''2024-01-01'', text_cell ''1001'', text_cell ''5001'', text_cell ''7001'',
          text_cell ''250'', text_cell ''2024-01-05''],
         [text_cell ''2024-01-01'', text_cell ''1002'', text_cell ''5002'', text_cell ''1001'',
          text_cell ''250'', text_cell ''2024-01-05'']])
     (str ''karur_vysya'') (str ''refund'') =
   (Inr ([], [refund_record 1001 5001 7001 (Finite 250) jan_1 jan_5]),
    [Duplicate_refund (Some 1002)])"
    by (simp add: assemble_refund_file) (simp add: row_eval)
  from b r eb er show ?thesis by blast
qed

text \<open>
  After the two rows of the booking example the set of seen values is \<open>{1001}\<close>, the
  order number of the one accepted record; the same holds for the refund example.
\<close>

theorem reference_tested_against_order_numbers_witness:
  "for_each (booking_row example_env (str ''karur_vysya'') booking_labels)
     [[text_cell ''2024-01-01'', text_cell ''1001'', text_cell ''5001'', text_cell ''250'',
       text_cell ''2024-01-05''],
      [text_cell ''2024-01-01'', text_cell ''1002'', text_cell ''1001'', text_cell ''250'',
       text_cell ''2024-01-05'']] ([], {}) =
     (Inr ([booking_record 1001 5001 (Finite 250) jan_1 jan_5], {Some 1001}),
      [Duplicate_booking (Some 1002)])
   \<and> {Some 1001} = order_key ` set [booking_record 1001 5001 (Finite 250) jan_1 jan_5]
   \<and> for_each (refund_row example_env (str ''karur_vysya'') refund_labels)
     [[text_cell ''2024-01-01'', text_cell ''1001'', text_cell ''5001'', text_cell ''7001'',
       text_cell ''250'', text_cell ''2024-01-05''],
      [text_cell ''2024-01-01'', text_cell ''1002'', text_cell ''5002'', text_cell ''1001'',
       text_cell ''250'', text_cell ''2024-01-05'']] ([], {}) =
     (Inr ([refund_record 1001 5001 7001 (Finite 250) jan_1 jan_5], {Some 1001}),
      [Duplicate_refund (Some 1002)])
   \<and> {Some 1001} = order_key ` set [refund_record 1001 5001 7001 (Finite 250) jan_1 jan_5]"
proof -
  have b: "for_each (booking_row example_env (str ''karur_vysya'') booking_labels)
     [[text_cell ''2024-01-01'', text_cell ''1001'', text_cell ''5001'', text_cell ''250'',
       text_cell ''2024-01-05''],
      [text_cell ''2024-01-01'', text_cell ''1002'', text_cell ''1001'', text_cell ''250'',
       text_cell ''2024-01-05'']] ([], {}) =
     (Inr ([booking_record 1001 5001 (Finite 250) jan_1 jan_5], {Some 1001}),
      [Duplicate_booking (Some 1002)])"
    by (simp add: row_eval)
  have r: "for_each (refund_row example_env (str ''karur_vysya'') refund_labels)
     [[text_cell ''2024-01-01'', text_cell ''1001'', text_cell ''5001'', text_cell ''7001'',
       text_cell ''250'', text_cell ''2024-01-05''],
      [text_cell ''2024-01-01'', text_cell ''1002'', text_cell ''5002'', text_cell ''1001'',
       text_cell ''250'', text_cell ''2024-01-05'']] ([], {}) =
     (Inr ([refund_record 1001 5001 7001 (Finite 250) jan_1 jan_5], {Some 1001}),
      [Duplicate_refund (Some 1002)])"
    by (simp add: row_eval)
  from reference_tested_against_order_numbers[THEN conjunct1, rule_format, OF b]
    reference_tested_against_order_numbers[THEN conjunct2, THEN conjunct1, rule_format, OF r]
    b r
  show ?thesis by simp
qed




section \<open>Claims about the Row Converter\<close>

text \<open>
  C6. The claim: every field-level parse failure is absorbed, the field is set to a
  null value and the failure is logged, and no exception leaves the processing of a
  chunk. Two chunks of one row each show otherwise. With a transaction date that is
  no date, the record is accepted with the date \<^verbatim>\<open>NaT\<close> and nothing is logged. With
  the amount \<^verbatim>\<open>abc\<close>, \<^verbatim>\<open>float\<close> raises \<^verbatim>\<open>ValueError\<close>, which leaves
  \<open>process_dataframe_chunk\<close>.
\<close>

theorem date_failure_silent_amount_failure_raises:
  "assemble example_env
     (booking_file
        [[text_cell ''not a date'', text_cell ''1001'', text_cell ''5001'', text_cell ''250'',
          text_cell ''2024-01-05'']])
     (str ''karur_vysya'') (str ''booking'') =
   (Inr ([booking_record 1001 5001 (Finite 250) NaT jan_5], []), [])
   \<and> process_dataframe_chunk example_env
     (booking_file
        [[text_cell ''2024-01-01'', text_cell ''1001'', text_cell ''5001'', text_cell ''abc'',
          text_cell ''2024-01-05'']])
     (str ''karur_vysya'') (str ''booking'') empty_world =
   (Inl ValueError, empty_world)"
proof -
  have "assemble example_env
     (booking_file
        [[text_cell ''not a date'', text_cell ''1001'', text_cell ''5001'', text_cell ''250'',
          text_cell ''2024-01-05'']])
     (str ''karur_vysya'') (str ''booking'') =
   (Inr ([booking_record 1001 5001 (Finite 250) NaT jan_5], []), [])"
    by (simp add: assemble_booking_file) (simp add: row_eval)
  moreover have "assemble example_env
     (booking_file
        [[text_cell ''2024-01-01'', text_cell ''1001'', text_cell ''5001'', text_cell ''abc'',
          text_cell ''2024-01-05'']])
     (str ''karur_vysya'') (str ''booking'') = (Inl ValueError, [])"
    by (simp add: assemble_booking_file) (simp add: row_eval)
  ultimately show ?thesis
    by (simp add: process_dataframe_chunk_def empty_world_def)
qed

text \<open>
  C6, as amended. A failure to parse an integer cell or a date cell is absorbed.
  \<open>convert_to_int\<close> never raises; it returns \<^verbatim>\<open>None\<close> and logs nothing for a
  missing value and the empty string; it returns \<^verbatim>\<open>None\<close> and logs an error for a
  string that \<^verbatim>\<open>float\<close> rejects, or reads as not-a-number or an infinity. For a
  chunk whose column labels are distinct, when the body of a loop returns on a row:
  what it logs is what the conversions of the integer cells of the row log, and the
  duplicate warning if the row is a duplicate, so that nothing is logged for a date;
  and if the row gives a record, each date of the record whose cell is missing or
  holds a string that is no date is \<^verbatim>\<open>NaT\<close>. And when moreover the labels of the
  keys are columns, the rows have a cell for each column and every amount cell
  converts, each loop ends without an exception, whatever the integer and date cells
  hold.
\<close>

theorem integer_and_date_failures_absorbed:
  "(\<exists>v l. convert_to_int E val = (Inr v, l))
   \<and> (pd_isna val \<or> val = Some (Str []) \<longrightarrow> convert_to_int E val = (Inr None, []))
   \<and> (float_str E s = None \<and> s \<noteq> [] \<longrightarrow>
        convert_to_int E (Some (Str s)) =
          (Inr None, [Error_converting (Some (Str s)) ValueError]))
   \<and> (float_str E s = Some f \<and> int_of_float f = Inl e \<and> s \<noteq> [] \<longrightarrow>
        convert_to_int E (Some (Str s)) = (Inr None, [Error_converting (Some (Str s)) e]))
   \<and> (distinct cols \<and> booking_row E bank cols row (bulk, seen) = (Inr (bulk', seen'), lg)
       \<longrightarrow>
        lg = snd (convert_to_int E (row_get cols row (str ''irctc_order_no''))) @
             snd (convert_to_int E (row_get cols row (str ''bank_booking_ref_no''))) @
             (if converted_key E cols (str ''irctc_order_no'') row \<in> seen \<or>
                 converted_key E cols (str ''bank_booking_ref_no'') row \<in> seen
              then [Duplicate_booking (converted_key E cols (str ''irctc_order_no'') row)]
              else [])
        \<and> (bulk' = bulk \<or>
            (\<exists>t. bulk' = bulk @ [t] \<and>
               (date_fails E (row_get cols row (str ''transaction_date'')) \<longrightarrow>
                  dict_get t ''transaction_date'' = NaT) \<and>
               (date_fails E (row_get cols row (str ''credited_date'')) \<longrightarrow>
                  dict_get t ''credited_date'' = NaT))))
   \<and> (distinct cols \<and> refund_row E bank cols row (bulk, seen) = (Inr (bulk', seen'), lg)
       \<longrightarrow>
        lg = snd (convert_to_int E (row_get cols row (str ''irctc_order_no''))) @
             snd (convert_to_int E (row_get cols row (str ''bank_refund_ref_no''))) @
             (if converted_key E cols (str ''irctc_order_no'') row \<in> seen \<or>
                 converted_key E cols (str ''bank_refund_ref_no'') row \<in> seen
              then [Duplicate_refund (converted_key E cols (str ''irctc_order_no'') row)]
              else snd (convert_to_int E (row_get cols row (str ''bank_booking_ref_no''))))
        \<and> (bulk' = bulk \<or>
            (\<exists>t. bulk' = bulk @ [t] \<and>
               (date_fails E (row_get cols row (str ''refund_date'')) \<longrightarrow>
                  dict_get t ''refund_date'' = NaT) \<and>
               (date_fails E (row_get cols row (str ''debited_date'')) \<longrightarrow>
                  dict_get t ''debited_date'' = NaT))))
   \<and> (distinct cols
       \<and> str ''irctc_order_no'' \<in> set cols \<and> str ''bank_booking_ref_no'' \<in> set cols
       \<and> (\<forall>row \<in> set rs. length row = length cols
             \<and> amount_converts E cols row (str ''booking_amount''))
       \<longrightarrow> (\<exists>res l. for_each (booking_row E bank cols) rs acc = (Inr res, l)))
   \<and> (distinct cols
       \<and> str ''irctc_order_no'' \<in> set cols \<and> str ''bank_refund_ref_no'' \<in> set cols
       \<and> (\<forall>row \<in> set rs. length row = length cols
             \<and> amount_converts E cols row (str ''refund_amount''))
       \<longrightarrow> (\<exists>res l. for_each (refund_row E bank cols) rs acc = (Inr res, l)))"
proof -
  have b: "\<exists>res l. for_each (booking_row E bank cols) rs acc = (Inr res, l)"
    if "distinct cols
       \<and> str ''irctc_order_no'' \<in> set cols \<and> str ''bank_booking_ref_no'' \<in> set cols
       \<and> (\<forall>row \<in> set rs. length row = length cols
             \<and> amount_converts E cols row (str ''booking_amount''))"
    using that by (intro for_each_no_raise booking_row_no_raise) auto
  have r: "\<exists>res l. for_each (refund_row E bank cols) rs acc = (Inr res, l)"
    if "distinct cols
       \<and> str ''irctc_order_no'' \<in> set cols \<and> str ''bank_refund_ref_no'' \<in> set cols
       \<and> (\<forall>row \<in> set rs. length row = length cols
             \<and> amount_converts E cols row (str ''refund_amount''))"
    using that by (intro for_each_no_raise refund_row_no_raise) auto
  note bl = booking_row_log[of E bank cols row bulk seen bulk' seen' lg]
  note rl = refund_row_log[of E bank cols row bulk seen bulk' seen' lg]
  note c1 = convert_to_int_returns[of E val]
  note c2 = convert_to_int_missing[of val E]
  note c3 = convert_to_int_non_numeric[of E s]
  note c4 = convert_to_int_not_finite[of E s f e]
  show ?thesis
    apply (intro conjI impI)
    subgoal by (rule c1)
    subgoal using c2 by blast
    subgoal using c3 by blast
    subgoal using c4 by blast
    subgoal using bl by blast
    subgoal using bl by blast
    subgoal using rl by blast
    subgoal using rl by blast
    subgoal using b by blast
    subgoal using r by blast
    done
qed

text \<open>
  A booking row and a refund row whose first date is no date, each alone in its loop:
  the row gives its record with the date \<^verbatim>\<open>NaT\<close> and nothing is logged. And the
  order number \<^verbatim>\<open>abc\<close> is converted to \<^verbatim>\<open>None\<close>, with an error logged.
\<close>

theorem integer_and_date_failures_absorbed_witness:
  "convert_to_int example_env (Some (text_cell ''abc'')) =
     (Inr None, [Error_converting (Some (text_cell ''abc'')) ValueError])
   \<and> distinct booking_labels
   \<and> booking_row example_env (str ''karur_vysya'') booking_labels
       [text_cell ''not a date'', text_cell ''1001'', text_cell ''5001'', text_cell ''250'',
        text_cell ''2024-01-05''] ([], {}) =
     (Inr ([booking_record 1001 5001 (Finite 250) NaT jan_5], {Some 1001}), [])
   \<and> date_fails example_env (Some (text_cell ''not a date''))
   \<and> dict_get (booking_record 1001 5001 (Finite 250) NaT jan_5) ''transaction_date'' = NaT
   \<and> distinct refund_labels
   \<and> refund_row example_env (str ''karur_vysya'') refund_labels
       [text_cell ''not a date'', text_cell ''1001'', text_cell ''5001'', text_cell ''7001'',
        text_cell ''250'', text_cell ''2024-01-05''] ([], {}) =
     (Inr ([refund_record 1001 5001 7001 (Finite 250) NaT jan_5], {Some 1001}), [])
   \<and> dict_get (refund_record 1001 5001 7001 (Finite 250) NaT jan_5) ''refund_date'' = NaT
   \<and> (\<exists>res l. for_each (booking_row example_env (str ''karur_vysya'') booking_labels)
       [[text_cell ''not a date'', text_cell ''abc'', text_cell ''5001'', text_cell ''250'',
         text_cell ''2024-01-05'']] ([], {}) = (Inr res, l))
   \<and> (\<exists>res l. for_each (refund_row example_env (str ''karur_vysya'') refund_labels)
       [[text_cell ''not a date'', text_cell ''abc'', text_cell ''5001'', text_cell ''7001'',
         text_cell ''250'', text_cell ''2024-01-05'']] ([], {}) = (Inr res, l))"
proof -
  let ?b = "[text_cell ''not a date'', text_cell ''1001'', text_cell ''5001'', text_cell ''250'',
        text_cell ''2024-01-05'']"
  let ?r = "[text_cell ''not a date'', text_cell ''1001'', text_cell ''5001'', text_cell ''7001'',
        text_cell ''250'', text_cell ''2024-01-05'']"
  let ?b' = "[text_cell ''not a date'', text_cell ''abc'', text_cell ''5001'', text_cell ''250'',
         text_cell ''2024-01-05'']"
  let ?r' = "[text_cell ''not a date'', text_cell ''abc'', text_cell ''5001'', text_cell ''7001'',
         text_cell ''250'', text_cell ''2024-01-05'']"
  have h1: "float_str example_env (str ''abc'') = None \<and> str ''abc'' \<noteq> []"
    by (simp add: example_env_def decimal_examples)
  have df: "date_fails example_env (Some (text_cell ''not a date''))"
    by (simp add: date_fails_def text_cell_def example_env_def date_examples)
  have hb: "distinct booking_labels
     \<and> booking_row example_env (str ''karur_vysya'') booking_labels ?b ([], {}) =
       (Inr ([booking_record 1001 5001 (Finite 250) NaT jan_5], {Some 1001}), [])"
    by (simp add: distinct_labels) (simp add: row_eval)
  have hr: "distinct refund_labels
     \<and> refund_row example_env (str ''karur_vysya'') refund_labels ?r ([], {}) =
       (Inr ([refund_record 1001 5001 7001 (Finite 250) NaT jan_5], {Some 1001}), [])"
    by (simp add: distinct_labels) (simp add: row_eval)
  have hlb: "distinct booking_labels
       \<and> str ''irctc_order_no'' \<in> set booking_labels
       \<and> str ''bank_booking_ref_no'' \<in> set booking_labels
       \<and> (\<forall>row \<in> set [?b']. length row = length booking_labels
             \<and> amount_converts example_env booking_labels row (str ''booking_amount''))"
    by (simp add: booking_labels_def amount_converts_def row_get_def amount_examples)
  have hlr: "distinct refund_labels
       \<and> str ''irctc_order_no'' \<in> set refund_labels
       \<and> str ''bank_refund_ref_no'' \<in> set refund_labels
       \<and> (\<forall>row \<in> set [?r']. length row = length refund_labels
             \<and> amount_converts example_env refund_labels row (str ''refund_amount''))"
    by (simp add: refund_labels_def amount_converts_def row_get_def amount_examples)
  note t = integer_and_date_failures_absorbed
  from t[of example_env _ "str ''abc''", THEN conjunct2, THEN conjunct2, THEN conjunct1] h1
  have c: "convert_to_int example_env (Some (text_cell ''abc'')) =
     (Inr None, [Error_converting (Some (text_cell ''abc'')) ValueError])"
    by (simp add: text_cell_def)
  from t[THEN conjunct2, THEN conjunct2, THEN conjunct2, THEN conjunct2, THEN conjunct1,
      rule_format, OF hb] df
  have db: "dict_get (booking_record 1001 5001 (Finite 250) NaT jan_5) ''transaction_date'' = NaT"
    by (simp add: booking_cells)
  from t[THEN conjunct2, THEN conjunct2, THEN conjunct2, THEN conjunct2, THEN conjunct2,
      THEN conjunct1, rule_format, OF hr] df
  have dr: "dict_get (refund_record 1001 5001 7001 (Finite 250) NaT jan_5) ''refund_date'' = NaT"
    by (simp add: refund_cells)
  from t[THEN conjunct2, THEN conjunct2, THEN conjunct2, THEN conjunct2, THEN conjunct2,
      THEN conjunct2, THEN conjunct1, rule_format, OF hlb]
  have lb: "\<exists>res l. for_each (booking_row example_env (str ''karur_vysya'') booking_labels)
       [?b'] ([], {}) = (Inr res, l)" .
  from t[THEN conjunct2, THEN conjunct2, THEN conjunct2, THEN conjunct2, THEN conjunct2,
      THEN conjunct2, THEN conjunct2, rule_format, OF hlr]
  have lr: "\<exists>res l. for_each (refund_row example_env (str ''karur_vysya'') refund_labels)
       [?r'] ([], {}) = (Inr res, l)" .
  from c hb df db hr dr lb lr show ?thesis by blast
qed

section \<open>Claims about the Pipeline Orchestrator\<close>

lemma process_file_zero_rows:
  assumes "read_excel E f = Inr df" and "rows df = []"
  shows "process_file E bank tt (str ''excel'') i f w =
           (Inr Return, w\<lparr>logged := logged w @ [No_data_found i]\<rparr>)"
  using assms by (simp add: process_file_def)

lemma files_loop_append:
  "files_loop E bank tt fmt i (pre @ rest) w =
     (case files_loop E bank tt fmt i pre w of
        (Inr Next, w') \<Rightarrow> files_loop E bank tt fmt (i + length pre) rest w'
      | (Inr Return, w') \<Rightarrow> (Inr Return, w')
      | (Inl e, w') \<Rightarrow> (Inl e, w'))"
proof (induction pre arbitrary: i w)
  case Nil
  then show ?case by simp
next
  case (Cons f pre)
  obtain r w1 where p: "process_file E bank tt fmt i f w = (r, w1)"
    by (cases "process_file E bank tt fmt i f w")
  show ?case
  proof (cases r)
    case (Inl e)
    with p show ?thesis by simp
  next
    case (Inr fl)
    with p Cons.IH[of "Suc i" w1] show ?thesis
      by (cases fl) (auto split: prod.splits sum.splits flow.splits)
  qed
qed

lemma files_loop_stops_at_zero_rows:
  assumes "read_excel E f = Inr df" and "rows df = []"
  shows "files_loop E bank tt (str ''excel'') i (pre @ f # post) w =
     (case files_loop E bank tt (str ''excel'') i pre w of
        (Inr Next, w') \<Rightarrow> (Inr Return, w'\<lparr>logged := logged w' @ [No_data_found (i + length pre)]\<rparr>)
      | (Inr Return, w') \<Rightarrow> (Inr Return, w')
      | (Inl e, w') \<Rightarrow> (Inl e, w'))"
  by (simp add: files_loop_append[where rest = "f # post"] process_file_zero_rows[OF assms]
      split: prod.splits sum.splits flow.splits)

lemma csv_zero_row_chunks:
  "list_all zero_row_chunk chunks \<Longrightarrow>
     for_each_do (csv_chunk E bank tt i) chunks w =
       (Inr (), w\<lparr>logged := logged w @ map (\<lambda>c. Empty_chunk i) chunks\<rparr>)"
proof (induction chunks arbitrary: w)
  case Nil
  then show ?case by simp
next
  case (Cons c chunks)
  from Cons.prems have z: "zero_row_chunk c" and rest: "list_all zero_row_chunk chunks"
    by simp_all
  from z obtain df where c: "c = Inr df" and e: "rows df = []"
    by (cases c) (auto simp: zero_row_chunk_def)
  have "csv_chunk E bank tt i c w = (Inr (), w\<lparr>logged := logged w @ [Empty_chunk i]\<rparr>)"
    by (simp add: c e csv_chunk_def frame_empty_def)
  then show ?case
    by (simp add: Cons.IH[OF rest])
qed

lemma process_file_zero_row_chunks:
  assumes "read_csv E f 50000 = Inr chunks" and "list_all zero_row_chunk chunks"
  shows "process_file E bank tt (str ''csv'') i f w =
           (Inr Next, w\<lparr>logged := logged w @ map (\<lambda>c. Empty_chunk i) chunks\<rparr>)"
  using assms(1) by (simp add: process_file_def csv_zero_row_chunks[OF assms(2)])

text \<open>
  C3. The claim: a file with zero data rows is a failure that is surfaced to the
  caller. For a file that is empty when read as Excel, \<open>process_uploaded_files\<close>
  logs an error and returns as it does after a successful run: no exception reaches
  the caller.
\<close>

theorem empty_excel_file_returns_normally:
  "process_uploaded_files example_env [booking_file []] (str ''karur_vysya'') (str ''booking'')
     (str ''excel'') empty_world =
   (Inr (), empty_world\<lparr>logged := [No_data_found 0]\<rparr>)"
  by (simp add: process_uploaded_files_def process_file_def example_env_def booking_file_def
      empty_world_def)

text \<open>
  C3, as amended. For a file that has zero data rows, at any place in the list of
  files and in any state of the store, in either format. Read as Excel (the frame has
  no rows): the error \<^verbatim>\<open>No data found in the file\<close> is logged and the function
  returns at once. Read as CSV (every chunk the reader yields has no rows): the error
  \<^verbatim>\<open>Empty chunk detected\<close> is logged for each chunk, the chunk is skipped, and the
  loop goes on with the next file. In both formats nothing else changes in the store:
  no record is inserted and no insert is attempted; and an invocation on this file
  alone returns normally, so that no failure reaches the caller.
\<close>

theorem zero_row_file_logged_nothing_inserted:
  "(read_excel E f = Inr df \<and> rows df = [] \<longrightarrow>
      process_file E bank tt (str ''excel'') i f w =
        (Inr Return, w\<lparr>logged := logged w @ [No_data_found i]\<rparr>)
      \<and> process_uploaded_files E [f] bank tt (str ''excel'') w =
        (Inr (), w\<lparr>logged := logged w @ [No_data_found 0]\<rparr>))
   \<and> (read_csv E f 50000 = Inr chunks \<and> list_all zero_row_chunk chunks \<longrightarrow>
      process_file E bank tt (str ''csv'') i f w =
        (Inr Next, w\<lparr>logged := logged w @ map (\<lambda>c. Empty_chunk i) chunks\<rparr>)
      \<and> process_uploaded_files E [f] bank tt (str ''csv'') w =
        (Inr (), w\<lparr>logged := logged w @ map (\<lambda>c. Empty_chunk 0) chunks\<rparr>))"
  by (simp add: process_uploaded_files_def process_file_zero_rows process_file_zero_row_chunks)

text \<open>
  An empty refund file, on a store that already holds order \<open>1001\<close>, read as Excel
  and read as CSV: the reader of CSV files of the example environment yields one chunk
  without rows.
\<close>

theorem zero_row_file_logged_nothing_inserted_witness:
  "read_excel example_env (refund_file []) = Inr (refund_file [])
   \<and> rows (refund_file []) = []
   \<and> process_uploaded_files example_env [refund_file []] (str ''karur_vysya'') (str ''refund'')
       (str ''excel'') stocked_world =
     (Inr (), stocked_world\<lparr>logged := [No_data_found 0]\<rparr>)
   \<and> read_csv example_env (refund_file []) 50000 = Inr [Inr (refund_file [])]
   \<and> list_all zero_row_chunk [Inr (refund_file [])]
   \<and> process_uploaded_files example_env [refund_file []] (str ''karur_vysya'') (str ''refund'')
       (str ''csv'') stocked_world =
     (Inr (), stocked_world\<lparr>logged := [Empty_chunk 0]\<rparr>)"
proof -
  have h: "read_excel example_env (refund_file []) = Inr (refund_file [])
     \<and> rows (refund_file []) = []"
    by (simp add: example_env_def refund_file_def)
  have g: "read_csv example_env (refund_file []) 50000 = Inr [Inr (refund_file [])]
     \<and> list_all zero_row_chunk [Inr (refund_file [])]"
    by (simp add: example_env_def refund_file_def zero_row_chunk_def)
  from zero_row_file_logged_nothing_inserted[THEN conjunct1, rule_format, OF h,
      of "str ''karur_vysya''" "str ''refund''" 0 stocked_world]
    zero_row_file_logged_nothing_inserted[THEN conjunct2, rule_format, OF g,
      of "str ''karur_vysya''" "str ''refund''" 0 stocked_world] h g
  show ?thesis by (simp add: stocked_world_def empty_world_def)
qed

text \<open>
  C9. For files in the Excel format, let the file after the files \<open>pre\<close> have zero
  data rows. Then the files \<open>post\<close> after it have no effect at all: the invocation
  gives the same result and the same state of the store as one without them. And if
  the loop gets through the files \<open>pre\<close>, leaving the state \<open>w'\<close>, the invocation
  returns normally, in the state \<open>w'\<close> with one more log record: none of the files
  \<open>post\<close> is read, no chunk of them is processed and no insert is made for them.
\<close>

theorem zero_row_excel_file_ends_invocation:
  assumes "read_excel E f = Inr df" and "rows df = []"
  shows "process_uploaded_files E (pre @ f # post) bank tt (str ''excel'') w =
           process_uploaded_files E (pre @ [f]) bank tt (str ''excel'') w
       \<and> (files_loop E bank tt (str ''excel'') 0 pre w = (Inr Next, w') \<longrightarrow>
            process_uploaded_files E (pre @ f # post) bank tt (str ''excel'') w =
              (Inr (), w'\<lparr>logged := logged w' @ [No_data_found (length pre)]\<rparr>))"
  by (simp add: process_uploaded_files_def files_loop_stops_at_zero_rows[OF assms]
      split: prod.splits sum.splits flow.splits)

lemma one_booking_chunk:
  "process_dataframe_chunk example_env
     (booking_file
        [[text_cell ''2024-01-01'', text_cell ''1001'', text_cell ''5001'', text_cell ''250'',
          text_cell ''2024-01-05'']])
     (str ''karur_vysya'') (str ''booking'') empty_world =
   (Inr (), empty_world\<lparr>booking_table := [booking_record 1001 5001 (Finite 250) jan_1 jan_5],
               booking_inserts := [[booking_record 1001 5001 (Finite 250) jan_1 jan_5]]\<rparr>)"
proof -
  have a: "assemble example_env
     (booking_file
        [[text_cell ''2024-01-01'', text_cell ''1001'', text_cell ''5001'', text_cell ''250'',
          text_cell ''2024-01-05'']])
     (str ''karur_vysya'') (str ''booking'') =
   (Inr ([booking_record 1001 5001 (Finite 250) jan_1 jan_5], []), [])"
    by (simp add: assemble_booking_file) (simp add: row_eval)
  have b: "bulk_create_booking_transactions example_env
      [booking_record 1001 5001 (Finite 250) jan_1 jan_5] empty_world =
    (Inr 1, empty_world\<lparr>booking_table := [booking_record 1001 5001 (Finite 250) jan_1 jan_5],
               booking_inserts := [[booking_record 1001 5001 (Finite 250) jan_1 jan_5]]\<rparr>)"
    by (simp add: bulk_create_booking_transactions_def bulk_create_transactions_def
        new_transactions_empty_table empty_world_def py_slices_def example_env_def
        bigint_create_def fits_bigint_def booking_record_def jan_1_def jan_5_def
        Let_def return_def)
  show ?thesis
    by (simp add: process_dataframe_chunk_def a b)
qed

text \<open>
  Three files: one booking, then a file with no data rows, then a booking with another
  order number. The invocation returns normally; the store holds the first booking
  only.
\<close>

theorem zero_row_excel_file_ends_invocation_witness:
  "process_uploaded_files example_env
     [booking_file
        [[text_cell ''2024-01-01'', text_cell ''1001'', text_cell ''5001'', text_cell ''250'',
          text_cell ''2024-01-05'']],
      booking_file [],
      booking_file
        [[text_cell ''2024-01-01'', text_cell ''2002'', text_cell ''5002'', text_cell ''250'',
          text_cell ''2024-01-05'']]]
     (str ''karur_vysya'') (str ''booking'') (str ''excel'') empty_world =
   (Inr (), empty_world\<lparr>booking_table := [booking_record 1001 5001 (Finite 250) jan_1 jan_5],
               booking_inserts := [[booking_record 1001 5001 (Finite 250) jan_1 jan_5]],
               logged := [No_data_found 1]\<rparr>)"
proof -
  let ?one = "booking_file
        [[text_cell ''2024-01-01'', text_cell ''1001'', text_cell ''5001'', text_cell ''250'',
          text_cell ''2024-01-05'']]"
  let ?w = "empty_world\<lparr>booking_table := [booking_record 1001 5001 (Finite 250) jan_1 jan_5],
               booking_inserts := [[booking_record 1001 5001 (Finite 250) jan_1 jan_5]]\<rparr>"
  have h1: "read_excel example_env (booking_file []) = Inr (booking_file [])"
    by (simp add: example_env_def)
  have h2: "rows (booking_file []) = []"
    by (simp add: booking_file_def)
  have sl: "frame_slices 50000 ?one = [?one]"
    by (simp add: frame_slices_def py_slices_def booking_file_def)
  have rd: "read_excel example_env ?one = Inr ?one"
    by (simp add: example_env_def)
  have pf: "process_file example_env (str ''karur_vysya'') (str ''booking'') (str ''excel'') 0
      ?one empty_world = (Inr Next, ?w)"
    by (simp add: process_file_def rd sl one_booking_chunk rows_booking_file)
  have h3: "files_loop example_env (str ''karur_vysya'') (str ''booking'') (str ''excel'') 0
      [?one] empty_world = (Inr Next, ?w)"
    by (simp add: pf)
  from zero_row_excel_file_ends_invocation[OF h1 h2, THEN conjunct2, rule_format, OF h3]
  show ?thesis by (simp add: empty_world_def)
qed

end
